theory Spec2Isabelle
  imports Complex_Main
begin

section \<open>Python values used by both scripts\<close>

text \<open>
  The two scripts of the repository are \<^verbatim>\<open>scripts/test_granularity.py\<close> (configuration
  generator and sweep driver) and \<^verbatim>\<open>scripts/view_scatterplots_eurosys.py\<close> (result
  aggregator). Both are modelled as Python 3 programs.

  Conventions of the embedding:
  \<^item> a Python \<^verbatim>\<open>int\<close> is an \<open>int\<close>; a Python \<^verbatim>\<open>float\<close> is the rational number it
    denotes (\<open>rat\<close>) and float arithmetic is exact: the rounding of IEEE binary64, and the
    values \<^verbatim>\<open>inf\<close> and \<^verbatim>\<open>nan\<close>, are not part of the model;
  \<^item> a Python \<^verbatim>\<open>str\<close> is a \<open>string\<close>;
  \<^item> a Python \<^verbatim>\<open>dict\<close> is an association list with the update of \<open>dict_set\<close>
    (a key keeps its position when it is assigned again, a new key goes last);
  \<^item> a raised exception is the \<open>Inl\<close> branch of a sum.
\<close>

datatype json =
    JNull
  | JBool bool
  | JInt int
  | JFloat rat
  | JStr string
  | JList "json list"
  | JDict "(string \<times> json) list"

datatype error =
    Exception string
  | ValueError
  | ZeroDivisionError
  | KeyError json
  | IndexError
  | NameError string
  | TypeError
  | OSError string

text \<open>\<^verbatim>\<open>d[k] = v\<close> on a dict.\<close>

fun dict_set :: "'k \<Rightarrow> 'v \<Rightarrow> ('k \<times> 'v) list \<Rightarrow> ('k \<times> 'v) list" where
  "dict_set k v [] = [(k, v)]"
| "dict_set k v ((k', v') # kvs) =
     (if k' = k then (k, v) # kvs else (k', v') # dict_set k v kvs)"

text \<open>
  \<^verbatim>\<open>str.lower()\<close>: the letters A to Z are mapped to a to z. Every other character is left
  as it is; none of them is turned into an ASCII letter occurring in a method name by
  Python's Unicode lowering either, so the comparisons below see the same outcome.
\<close>

definition lower_char :: "char \<Rightarrow> char" where
  "lower_char c =
     (let n = (of_char c :: nat) in if 65 \<le> n \<and> n \<le> 90 then char_of (n + 32) else c)"

definition lower :: "string \<Rightarrow> string" where
  "lower s = map lower_char s"

text \<open>\<^verbatim>\<open>str(n)\<close> and \<^verbatim>\<open>"%d" % n\<close> for an int.\<close>

function dec_digits :: "nat \<Rightarrow> string" where
  "dec_digits n =
     (if n < 10 then [''0123456789'' ! n]
      else dec_digits (n div 10) @ [''0123456789'' ! (n mod 10)])"
  by pat_completeness auto
termination
  by (relation "measure id") auto

declare dec_digits.simps [simp del]

definition str :: "int \<Rightarrow> string" where
  "str n = (if n < 0 then ''-'' @ dec_digits (nat (- n)) else dec_digits (nat n))"

text \<open>\<^verbatim>\<open>hex(n)\<close> for an int: lower-case digits after \<^verbatim>\<open>0x\<close>, the sign in front.\<close>

function hex_digits :: "nat \<Rightarrow> string" where
  "hex_digits n =
     (if n < 16 then [''0123456789abcdef'' ! n]
      else hex_digits (n div 16) @ [''0123456789abcdef'' ! (n mod 16)])"
  by pat_completeness auto
termination
  by (relation "measure id") auto

declare hex_digits.simps [simp del]

definition hex :: "int \<Rightarrow> string" where
  "hex n = (if n < 0 then ''-0x'' @ hex_digits (nat (- n)) else ''0x'' @ hex_digits (nat n))"

text \<open>
  \<^verbatim>\<open>int(s, 2)\<close> on a string of binary digits. The generator only passes \<^verbatim>\<open>"1" * n\<close>: the
  sign, the \<^verbatim>\<open>0b\<close> prefix, white space and underscores that Python also accepts are not
  modelled. The empty string raises ValueError.
\<close>

definition int_base2 :: "string \<Rightarrow> error + int" where
  "int_base2 s =
     (if s = [] \<or> (\<exists>c \<in> set s. c \<noteq> CHR ''0'' \<and> c \<noteq> CHR ''1'') then Inl ValueError
      else Inr (foldl (\<lambda>acc c. 2 * acc + (if c = CHR ''1'' then 1 else 0)) 0 s))"

text \<open>
  \<^verbatim>\<open>round(x, 4)\<close>: the nearest multiple of \<open>1/10000\<close>, a tie going to the even multiple.
\<close>

definition round_half_even :: "rat \<Rightarrow> int" where
  "round_half_even x =
     (let f = \<lfloor>x\<rfloor>; d = x - of_int f
      in if d < 1 / 2 then f else if 1 / 2 < d then f + 1 else if even f then f else f + 1)"

definition py_round4 :: "rat \<Rightarrow> rat" where
  "py_round4 x = of_int (round_half_even (x * 10000)) / 10000"

text \<open>
  The wait status returned by \<^verbatim>\<open>os.system\<close>, decoded as on Linux: the low seven bits are
  the terminating signal, bits 8 to 15 the exit status.
\<close>

definition WIFEXITED :: "int \<Rightarrow> bool" where
  "WIFEXITED status = (status mod 128 = 0)"

definition WEXITSTATUS :: "int \<Rightarrow> int" where
  "WEXITSTATUS status = (status div 256) mod 256"

section \<open>The configuration generator (\<^verbatim>\<open>test_granularity.py\<close>)\<close>

definition MIG_CONFIGS :: "(int \<times> string) list" where
  "MIG_CONFIGS =
     [(7, ''1g.10gb''), (14, ''2g.10gb''), (21, ''3g.20gb''), (28, ''4g.20gb''),
      (49, ''7g.40gb'')]"

definition epsilon :: rat where
  "epsilon = 1 / 10000"

text \<open>
  The dict \<^verbatim>\<open>plugin_config\<close> as first built, before the method-specific key is added.
\<close>

definition plugin_config0 :: "string \<Rightarrow> int \<Rightarrow> (string \<times> json) list" where
  "plugin_config0 part_method active_tpcs =
     [(''label'', JStr (str active_tpcs)),
      (''log_name'', JStr (''eurosys25_'' @ part_method @ ''_'' @ str active_tpcs @ ''tpcs.json'')),
      (''filename'', JStr ''./bin/matrix_multiply.so''),
      (''thread_count'', JList [JInt 32, JInt 32]),
      (''block_count'', JInt 1),
      (''data_size'', JInt 0),
      (''additional_info'', JDict [(''matrix_width'', JInt 8192), (''skip_copy'', JBool True)])]"

definition overall_config ::
  "string \<Rightarrow> int \<Rightarrow> int \<Rightarrow> (string \<times> json) list \<Rightarrow> json" where
  "overall_config part_method device iterations plugin_config =
     JDict
       [(''name'', JStr (''TPC Count vs. Performance with '' @ part_method)),
        (''max_iterations'', JInt iterations),
        (''max_time'', JInt 0),
        (''cuda_device'', JInt device),
        (''use_processes'', JBool True),
        (''pin_cpus'', JBool True),
        (''do_warmup'', JBool True),
        (''benchmarks'', JList [JDict plugin_config])]"

text \<open>
  The MiG branch of \<open>generate_config\<close>. \<open>os_system\<close> is \<^verbatim>\<open>os.system\<close>: it runs a command
  in the world outside the process (type \<open>'w\<close>), returns the wait status and leaves a
  changed world. The result is the geometry name, or the exception raised.
\<close>

definition mig_setup ::
  "(string \<Rightarrow> 'w \<Rightarrow> int \<times> 'w) \<Rightarrow> int \<Rightarrow> 'w \<Rightarrow> (error + string) \<times> 'w" where
  "mig_setup os_system active_tpcs w0 =
     (let (smi_status, w1) = os_system ''nvidia-smi mig --list-gpu-instance-profiles'' w0
      in if \<not> WIFEXITED smi_status \<or> WEXITSTATUS smi_status = 6
         then (Inl (Exception ''MiG-capable GPU required for MiG experiments!''), w1)
         else (case map_of MIG_CONFIGS active_tpcs of
                 None \<Rightarrow> (Inl (KeyError (JInt active_tpcs)), w1)
               | Some config \<Rightarrow>
                   (let (_, w2) = os_system ''sudo nvidia-smi mig --destroy-compute-instance'' w1;
                        (_, w3) = os_system ''sudo nvidia-smi mig --destroy-gpu-instance'' w2;
                        (smi_status', w4) =
                          os_system (''sudo nvidia-smi mig --create-gpu-instance '' @ config @
                                     '' --default-compute-instance'') w3
                    in if \<not> WIFEXITED smi_status' \<or> WEXITSTATUS smi_status' \<noteq> 0
                       then (Inl (Exception (''Unable to create MiG instance with config '' @
                                              config @ ''!'')), w4)
                       else (Inr config, w4))))"

text \<open>
  \<open>generate_config\<close>. The value returned is the dict handed to \<^verbatim>\<open>json.dumps\<close>; the
  rendering of that dict as text is the library's and is not modelled.
\<close>

definition generate_config ::
  "(string \<Rightarrow> 'w \<Rightarrow> int \<times> 'w) \<Rightarrow> int \<Rightarrow> string \<Rightarrow> int \<Rightarrow> int \<Rightarrow> int \<Rightarrow> 'w
     \<Rightarrow> (error + json) \<times> 'w" where
  "generate_config os_system device part_method total_tpcs active_tpcs iterations w0 =
     (let plugin_config = plugin_config0 part_method active_tpcs
      in if lower part_method = ''mps'' then
           (if total_tpcs = 0 then (Inl ZeroDivisionError, w0)
            else
              (let percent_active = of_int (100 * active_tpcs) / of_int total_tpcs + epsilon;
                   rounded = py_round4 percent_active;
                   capped = (if rounded < 100 then JFloat rounded else JInt 100)
               in (Inr (overall_config part_method device iterations
                          (dict_set ''mps_thread_percentage'' capped plugin_config)), w0)))
         else if lower part_method = ''libsmctrl'' then
           (case int_base2 (replicate (nat active_tpcs) CHR ''1'') of
              Inl e \<Rightarrow> (Inl e, w0)
            | Inr enabled \<Rightarrow>
                (Inr (overall_config part_method device iterations
                        (dict_set ''sm_mask'' (JStr (''~'' @ hex enabled)) plugin_config)), w0))
         else if lower part_method = ''mig'' then
           (case mig_setup os_system active_tpcs w0 of
              (Inl e, w1) \<Rightarrow> (Inl e, w1)
            | (Inr config, w1) \<Rightarrow>
                (Inr (overall_config part_method device iterations plugin_config), w1))
         else (Inl (Exception (''Unknown partitioning type '' @ [CHR 0x27] @ part_method @
                                [CHR 0x27] @ ''!'')), w0))"

text \<open>Reading a generated configuration back: a key of its single benchmark entry.\<close>

fun plugin_setting :: "string \<Rightarrow> json \<Rightarrow> json option" where
  "plugin_setting k (JDict kvs) =
     (case map_of kvs ''benchmarks'' of
        Some (JList [JDict plugin_config]) \<Rightarrow> map_of plugin_config k
      | _ \<Rightarrow> None)"
| "plugin_setting k _ = None"

fun top_setting :: "string \<Rightarrow> json \<Rightarrow> json option" where
  "top_setting k (JDict kvs) = map_of kvs k"
| "top_setting k _ = None"


text \<open>
  Reading a mask back, as \<^verbatim>\<open>int(digits, 16)\<close> does on a string of lower-case hexadecimal
  digits.
\<close>

definition hex_digit_value :: "char \<Rightarrow> nat option" where
  "hex_digit_value c =
     map_of
       [(CHR ''0'', 0), (CHR ''1'', 1), (CHR ''2'', 2), (CHR ''3'', 3), (CHR ''4'', 4),
        (CHR ''5'', 5), (CHR ''6'', 6), (CHR ''7'', 7), (CHR ''8'', 8), (CHR ''9'', 9),
        (CHR ''a'', 10), (CHR ''b'', 11), (CHR ''c'', 12), (CHR ''d'', 13), (CHR ''e'', 14),
        (CHR ''f'', 15)] c"

definition int_base16 :: "string \<Rightarrow> error + int" where
  "int_base16 s =
     (if s = [] \<or> (\<exists>c \<in> set s. hex_digit_value c = None) then Inl ValueError
      else Inr (foldl (\<lambda>acc c. 16 * acc + int (the (hex_digit_value c))) 0 s))"


section \<open>The sweep driver (\<^verbatim>\<open>test_granularity.py\<close>, \<^verbatim>\<open>run_process\<close> and the main block)\<close>

text \<open>
  The command line after \<^verbatim>\<open>parse_args\<close>. \<^verbatim>\<open>--tpc_count\<close> has no default and is
  \<^verbatim>\<open>None\<close> when absent; \<^verbatim>\<open>--start_count\<close> defaults to 1, and the script still tests
  it against \<^verbatim>\<open>None\<close>.
\<close>

record args =
  args_tpc_count :: "int option"
  args_start_count :: "int option"
  args_mig :: bool
  args_device :: int
  args_iterations :: int

text \<open>
  What the driver leaves behind: the world outside the process, the lines printed, and the
  configurations handed to a started \<^verbatim>\<open>./bin/runner\<close>, in order.
\<close>

record 'w proc =
  world :: 'w
  printed :: "string list"
  launched :: "json list"

datatype outcome = Exit int | Raised error | Returned

definition print :: "string \<Rightarrow> 'w proc \<Rightarrow> 'w proc" where
  "print line s = s\<lparr>printed := printed s @ [line]\<rparr>"

text \<open>
  \<open>runner\<close> is the effect on the world of starting \<^verbatim>\<open>./bin/runner -\<close>, writing the
  configuration to its standard input and waiting for it.
\<close>

definition run_process ::
  "(string \<Rightarrow> 'w \<Rightarrow> int \<times> 'w) \<Rightarrow> (json \<Rightarrow> 'w \<Rightarrow> 'w) \<Rightarrow> int \<Rightarrow> string \<Rightarrow> int \<Rightarrow> int \<Rightarrow> int
     \<Rightarrow> 'w proc \<Rightarrow> error option \<times> 'w proc" where
  "run_process os_system runner device part_method total_tpcs active_tpcs iterations s =
     (case generate_config os_system device part_method total_tpcs active_tpcs iterations
             (world s) of
        (Inl e, w1) \<Rightarrow> (Some e, s\<lparr>world := w1\<rparr>)
      | (Inr config, w1) \<Rightarrow>
          (let s1 = print (''Starting test with '' @ str active_tpcs @ '' TPCs enabled under '' @
                           part_method) (s\<lparr>world := w1\<rparr>)
           in (None, s1\<lparr>world := runner config (world s1),
                        launched := launched s1 @ [config]\<rparr>)))"

text \<open>
  The inner loop \<^verbatim>\<open>for part_method in part_methods\<close>. The local \<^verbatim>\<open>tpc_count\<close> is
  \<open>None\<close> when the script never assigned it; reading it then raises NameError.
\<close>

fun run_methods ::
  "(string \<Rightarrow> 'w \<Rightarrow> int \<times> 'w) \<Rightarrow> (json \<Rightarrow> 'w \<Rightarrow> 'w) \<Rightarrow> int \<Rightarrow> int option \<Rightarrow> int \<Rightarrow> int
     \<Rightarrow> string list \<Rightarrow> 'w proc \<Rightarrow> error option \<times> 'w proc" where
  "run_methods os_system runner device tpc_count active_tpcs iterations [] s = (None, s)"
| "run_methods os_system runner device tpc_count active_tpcs iterations (part_method # rest) s =
     (let s1 = print (''Running test for '' @ str active_tpcs @ '' active TPCs under '' @
                      part_method @ ''.'') s
      in case tpc_count of
           None \<Rightarrow> (Some (NameError ''tpc_count''), s1)
         | Some total_tpcs \<Rightarrow>
             (case run_process os_system runner device part_method total_tpcs active_tpcs
                     iterations s1 of
                (Some e, s2) \<Rightarrow> (Some e, s2)
              | (None, s2) \<Rightarrow>
                  run_methods os_system runner device tpc_count active_tpcs iterations rest
                    (print [] s2)))"

text \<open>The outer loop \<^verbatim>\<open>for active_tpcs in part_options\<close>.\<close>

fun run_options ::
  "(string \<Rightarrow> 'w \<Rightarrow> int \<times> 'w) \<Rightarrow> (json \<Rightarrow> 'w \<Rightarrow> 'w) \<Rightarrow> int \<Rightarrow> int option \<Rightarrow> int
     \<Rightarrow> string list \<Rightarrow> int list \<Rightarrow> 'w proc \<Rightarrow> error option \<times> 'w proc" where
  "run_options os_system runner device tpc_count iterations part_methods [] s = (None, s)"
| "run_options os_system runner device tpc_count iterations part_methods (active_tpcs # rest) s =
     (case run_methods os_system runner device tpc_count active_tpcs iterations part_methods s of
        (Some e, s1) \<Rightarrow> (Some e, s1)
      | (None, s1) \<Rightarrow>
          run_options os_system runner device tpc_count iterations part_methods rest s1)"

definition finish :: "error option \<times> 'w proc \<Rightarrow> outcome \<times> 'w proc" where
  "finish r = (case r of (Some e, s) \<Rightarrow> (Raised e, s) | (None, s) \<Rightarrow> (Returned, s))"

text \<open>
  The main block. \<open>pysmctrl\<close> is the truth value of the imported module object (the script
  tests \<^verbatim>\<open>if pysmctrl\<close>), \<open>get_tpc_info_cuda\<close> is the library's capability query.
\<close>

definition main ::
  "bool \<Rightarrow> (int \<Rightarrow> 'w \<Rightarrow> int) \<Rightarrow> (string \<Rightarrow> 'w \<Rightarrow> int \<times> 'w) \<Rightarrow> (json \<Rightarrow> 'w \<Rightarrow> 'w) \<Rightarrow> args \<Rightarrow> 'w
     \<Rightarrow> outcome \<times> 'w proc" where
  "main pysmctrl get_tpc_info_cuda os_system runner a w0 =
     (let s0 = \<lparr>world = w0, printed = [], launched = []\<rparr>
      in case (case args_tpc_count a of
                 Some n \<Rightarrow>
                   if n \<le> 0
                   then Inl (Exit 22, print ''The TPC count must be positive and non-zero.'' s0)
                   else Inr (Some n, s0)
               | None \<Rightarrow>
                   if pysmctrl
                   then (let n = get_tpc_info_cuda (args_device a) w0
                         in Inr (Some n,
                                 print (''Auto-detected '' @ str n @ '' available TPCs'') s0))
                   else Inr (None, s0)) of
           Inl r \<Rightarrow> r
         | Inr (tpc_count, s1) \<Rightarrow>
             if args_start_count a \<noteq> None \<and> the (args_start_count a) \<le> 0
             then (Exit 22, print ''The starting TPC count must be positive and non-zero.'' s1)
             else if args_mig a
             then finish (run_options os_system runner (args_device a) tpc_count
                            (args_iterations a) [''mig''] (map fst MIG_CONFIGS) s1)
             else if pysmctrl \<and> tpc_count \<noteq> None
                       \<and> the tpc_count > get_tpc_info_cuda (args_device a) w0
             then (Exit 22,
                   print ''The TPC count must not exceed the number of available TPCs.'' s1)
             else (case tpc_count of
                     None \<Rightarrow> (Raised (NameError ''tpc_count''), s1)
                   | Some total_tpcs \<Rightarrow>
                       (case args_start_count a of
                          None \<Rightarrow> (Raised TypeError, s1)
                        | Some start \<Rightarrow>
                            finish (run_options os_system runner (args_device a) tpc_count
                                      (args_iterations a) [''mps'', ''libsmctrl'']
                                      [start..total_tpcs] s1))))"

section \<open>The result aggregator (\<^verbatim>\<open>view_scatterplots_eurosys.py\<close>)\<close>

text \<open>
  A parsed result file, in the format the runner writes: a JSON object with the optional
  keys \<^verbatim>\<open>label\<close>, \<^verbatim>\<open>scenario_name\<close> and \<^verbatim>\<open>times\<close>. A key that is absent is \<open>None\<close>.
  \<^verbatim>\<open>times\<close> is a list of objects; of each object the model keeps the keys that hold an
  array of timestamps (numbers), which is what the times key names.
\<close>

record parsed =
  parsed_label :: "json option"
  parsed_scenario_name :: "string option"
  parsed_times :: "(string \<rightharpoonup> rat list) list option"

text \<open>
  \<open>convert_to_float\<close>. \<open>float_str\<close> is Python's \<^verbatim>\<open>float\<close> on a string (\<open>None\<close> where it
  raises ValueError); on the other JSON values \<^verbatim>\<open>float\<close> converts numbers and booleans
  and raises TypeError, which the bare \<^verbatim>\<open>except\<close> turns into \<^verbatim>\<open>None\<close>.
\<close>

fun convert_to_float :: "(string \<Rightarrow> rat option) \<Rightarrow> json \<Rightarrow> rat option" where
  "convert_to_float float_str (JStr s) = float_str s"
| "convert_to_float float_str (JInt i) = Some (of_int i)"
| "convert_to_float float_str (JFloat r) = Some r"
| "convert_to_float float_str (JBool b) = Some (if b then 1 else 0)"
| "convert_to_float float_str JNull = None"
| "convert_to_float float_str (JList xs) = None"
| "convert_to_float float_str (JDict kvs) = None"

text \<open>
  The \<^verbatim>\<open>while i < len(times)\<close> loop of \<open>plugin_summary_values\<close>: reading
  \<^verbatim>\<open>times[i + 1]\<close> past the end raises IndexError.
\<close>

function durations_loop :: "rat list \<Rightarrow> nat \<Rightarrow> rat list \<Rightarrow> error + rat list" where
  "durations_loop timestamps i durations =
     (if i < length timestamps
      then (if i + 1 < length timestamps
            then durations_loop timestamps (i + 2)
                   (durations @ [timestamps ! (i + 1) - timestamps ! i])
            else Inl IndexError)
      else Inr durations)"
  by pat_completeness auto
termination
  by (relation "measure (\<lambda>(timestamps, i, durations). length timestamps - i)") auto

declare durations_loop.simps [simp del]

text \<open>The \<^verbatim>\<open>for t in plugin["times"]\<close> loop.\<close>

fun collect_durations ::
  "string \<Rightarrow> (string \<rightharpoonup> rat list) list \<Rightarrow> rat list \<Rightarrow> error + rat list" where
  "collect_durations times_key [] durations = Inr durations"
| "collect_durations times_key (t # rest) durations =
     (case t times_key of
        None \<Rightarrow> collect_durations times_key rest durations
      | Some timestamps \<Rightarrow>
          (case durations_loop timestamps 0 durations of
             Inl e \<Rightarrow> Inl e
           | Inr durations' \<Rightarrow> collect_durations times_key rest durations'))"

text \<open>\<^verbatim>\<open>min\<close> and \<^verbatim>\<open>max\<close> of a list raise ValueError on the empty list.\<close>

fun py_min :: "rat list \<Rightarrow> error + rat" where
  "py_min [] = Inl ValueError"
| "py_min (x # xs) = Inr (fold min xs x)"

fun py_max :: "rat list \<Rightarrow> error + rat" where
  "py_max [] = Inl ValueError"
| "py_max (x # xs) = Inr (fold max xs x)"

text \<open>\<^verbatim>\<open>numpy.mean\<close> of a non-empty list of numbers: their sum over their count.\<close>

definition numpy_mean :: "rat list \<Rightarrow> rat" where
  "numpy_mean xs = sum_list xs / of_nat (length xs)"

definition plugin_summary_values :: "parsed \<Rightarrow> string \<Rightarrow> error + rat list" where
  "plugin_summary_values plugin times_key =
     (case parsed_times plugin of
        None \<Rightarrow> Inl (KeyError (JStr ''times''))
      | Some ts \<Rightarrow>
          (case collect_durations times_key ts [] of
             Inl e \<Rightarrow> Inl e
           | Inr durations \<Rightarrow>
               (case py_min durations of
                  Inl e \<Rightarrow> Inl e
                | Inr minimum \<Rightarrow>
                    (case py_max durations of
                       Inl e \<Rightarrow> Inl e
                     | Inr maximum \<Rightarrow>
                         Inr [minimum * 1000, maximum * 1000, numpy_mean durations * 1000]))))"

text \<open>\<open>scenario_to_distribution\<close>: the keys sorted, then the three columns in that order.\<close>

definition scenario_to_distribution :: "(rat \<times> rat list) list \<Rightarrow> rat list list" where
  "scenario_to_distribution scenario =
     (let x_values = sort (map fst scenario);
          triplets = map (\<lambda>k. the (map_of scenario k)) x_values
      in [x_values, map (\<lambda>triplet. triplet ! 0) triplets, map (\<lambda>triplet. triplet ! 1) triplets,
          map (\<lambda>triplet. triplet ! 2) triplets])"

text \<open>
  The state of the loop of \<open>show_plots\<close>: the dict \<^verbatim>\<open>all_scenarios\<close> (scenario name to
  label to triplet) and the lines printed.
\<close>

record plots =
  all_scenarios :: "(string \<times> (rat \<times> rat list) list) list"
  messages :: "string list"

definition say :: "string \<Rightarrow> plots \<Rightarrow> plots" where
  "say line st = st\<lparr>messages := messages st @ [line]\<rparr>"

text \<open>
  \<^verbatim>\<open>if name not in all_scenarios: all_scenarios[name] = {}\<close> followed by
  \<^verbatim>\<open>all_scenarios[name][float_value] = summary_values\<close>.
\<close>

definition store ::
  "string \<Rightarrow> rat \<Rightarrow> rat list \<Rightarrow> (string \<times> (rat \<times> rat list) list) list
     \<Rightarrow> (string \<times> (rat \<times> rat list) list) list" where
  "store name float_value summary_values scenarios =
     (let scenarios1 = (if map_of scenarios name = None then dict_set name [] scenarios
                        else scenarios)
      in dict_set name (dict_set float_value summary_values (the (map_of scenarios1 name)))
           scenarios1)"

text \<open>
  The body of \<^verbatim>\<open>for name in filenames\<close>. \<open>load\<close> is \<^verbatim>\<open>open(name)\<close> followed by
  \<^verbatim>\<open>json.loads(f.read())\<close>, with the exception either raises.
\<close>

definition show_plots_body ::
  "(string \<Rightarrow> error + parsed) \<Rightarrow> (string \<Rightarrow> rat option) \<Rightarrow> string \<Rightarrow> nat \<Rightarrow> int \<Rightarrow> string
     \<Rightarrow> plots \<Rightarrow> error + plots" where
  "show_plots_body load float_str times_key n_files counter name st =
     (let st1 = say (''Parsing file '' @ str counter @ '' / '' @ str (int n_files) @ '': '' @
                     name) st
      in case load name of
           Inl e \<Rightarrow> Inl e
         | Inr p \<Rightarrow>
             (case parsed_label p of
                None \<Rightarrow>
                  Inr (say (''Skipping '' @ name @ '': no '' @ [CHR 0x22] @ ''label'' @ [CHR 0x22] @
                            '' field in file.'') st1)
              | Some label \<Rightarrow>
                  (case parsed_times p of
                     None \<Rightarrow> Inl (KeyError (JStr ''times''))
                   | Some ts \<Rightarrow>
                       if length ts < 2
                       then Inr (say (''Skipping '' @ name @ '': no recorded times in file.'')
                                   st1)
                       else
                         (case convert_to_float float_str label of
                            None \<Rightarrow>
                              Inr (say (''Skipping '' @ name @ '': label isn'' @ [CHR 0x27] @
                                        ''t a number.'') st1)
                          | Some float_value \<Rightarrow>
                              (case plugin_summary_values p times_key of
                                 Inl e \<Rightarrow> Inl e
                               | Inr summary_values \<Rightarrow>
                                   (case parsed_scenario_name p of
                                      None \<Rightarrow> Inl (KeyError (JStr ''scenario_name''))
                                    | Some scenario \<Rightarrow>
                                        Inr (st1\<lparr>all_scenarios :=
                                               store scenario float_value summary_values
                                                 (all_scenarios st1)\<rparr>)))))))"

fun show_plots_loop ::
  "(string \<Rightarrow> error + parsed) \<Rightarrow> (string \<Rightarrow> rat option) \<Rightarrow> string \<Rightarrow> nat \<Rightarrow> int \<Rightarrow> string list
     \<Rightarrow> plots \<Rightarrow> error + plots" where
  "show_plots_loop load float_str times_key n_files counter [] st = Inr st"
| "show_plots_loop load float_str times_key n_files counter (name # rest) st =
     (case show_plots_body load float_str times_key n_files counter name st of
        Inl e \<Rightarrow> Inl e
      | Inr st' \<Rightarrow> show_plots_loop load float_str times_key n_files (counter + 1) rest st')"

text \<open>
  \<open>show_plots\<close> up to the point where drawing starts. What is drawn afterwards is one
  series per entry of \<^verbatim>\<open>all_scenarios\<close>, computed by \<open>scenario_to_distribution\<close> from that
  entry alone; the calls into the plotting library are not modelled.
\<close>

definition show_plots ::
  "(string \<Rightarrow> error + parsed) \<Rightarrow> (string \<Rightarrow> rat option) \<Rightarrow> string list \<Rightarrow> string
     \<Rightarrow> error + plots" where
  "show_plots load float_str filenames times_key =
     show_plots_loop load float_str times_key (length filenames) 1 filenames
       \<lparr>all_scenarios = [], messages = []\<rparr>"

text \<open>
  The duration samples as the specification describes them: the timestamps of an array
  taken as consecutive, non-overlapping (start, end) pairs, each pair giving the sample
  end minus start; the arrays under the times key are taken in file order.
\<close>

definition paired_samples :: "rat list \<Rightarrow> rat list" where
  "paired_samples timestamps =
     map (\<lambda>k. timestamps ! (2 * k + 1) - timestamps ! (2 * k)) [0..<length timestamps div 2]"

definition present_arrays :: "string \<Rightarrow> (string \<rightharpoonup> rat list) list \<Rightarrow> rat list list" where
  "present_arrays times_key ts = concat (map (\<lambda>t. case t times_key of None \<Rightarrow> [] | Some a \<Rightarrow> [a]) ts)"

definition all_samples :: "string \<Rightarrow> (string \<rightharpoonup> rat list) list \<Rightarrow> rat list" where
  "all_samples times_key ts = concat (map paired_samples (present_arrays times_key ts))"

text \<open>
  The number of timestamps a file records under the times key, for the specification's
  "fewer than two recorded timestamps".
\<close>

definition recorded_timestamps :: "string \<Rightarrow> parsed \<Rightarrow> nat" where
  "recorded_timestamps times_key p =
     (case parsed_times p of
        None \<Rightarrow> 0
      | Some ts \<Rightarrow> sum_list (map length (present_arrays times_key ts)))"

section \<open>Notions used in the statements\<close>


text \<open>The exception of the final \<^verbatim>\<open>else\<close> branch of \<open>generate_config\<close>.\<close>

definition unknown_method :: "string \<Rightarrow> error" where
  "unknown_method part_method =
     Exception (''Unknown partitioning type '' @ [CHR 0x27] @ part_method @ [CHR 0x27] @ ''!'')"

text \<open>
  The precondition "every present times-key array is non-empty and of even length".
\<close>

definition well_paired :: "string \<Rightarrow> (string \<rightharpoonup> rat list) list \<Rightarrow> bool" where
  "well_paired times_key ts =
     list_all (\<lambda>a. a \<noteq> [] \<and> even (length a)) (present_arrays times_key ts)"

text \<open>\<^verbatim>\<open>all_scenarios[name][float_value]\<close>, when both keys are there.\<close>

definition triplet_at ::
  "(string \<times> (rat \<times> rat list) list) list \<Rightarrow> string \<Rightarrow> rat \<Rightarrow> rat list option" where
  "triplet_at scenarios name float_value =
     (case map_of scenarios name of
        None \<Rightarrow> None
      | Some scenario \<Rightarrow> map_of scenario float_value)"

text \<open>No scenario name and, within a scenario, no label is held twice.\<close>

definition unique_keys :: "(string \<times> (rat \<times> rat list) list) list \<Rightarrow> bool" where
  "unique_keys scenarios =
     (distinct (map fst scenarios) \<and> list_all (\<lambda>(name, scenario). distinct (map fst scenario)) scenarios)"

section \<open>Properties of the configuration generator\<close>

subsection \<open>Mask-based partitioning\<close>

lemma hex_digit_value_nth:
  assumes "d < 16"
  shows "hex_digit_value (''0123456789abcdef'' ! d) = Some d"
proof -
  from assms have "d = 0 \<or> d = 1 \<or> d = 2 \<or> d = 3 \<or> d = 4 \<or> d = 5 \<or> d = 6 \<or> d = 7
    \<or> d = 8 \<or> d = 9 \<or> d = 10 \<or> d = 11 \<or> d = 12 \<or> d = 13 \<or> d = 14 \<or> d = 15"
    by arith
  then show ?thesis
    by (elim disjE) (simp_all add: hex_digit_value_def)
qed

lemma hex_digits_valid: "c \<in> set (hex_digits n) \<Longrightarrow> hex_digit_value c \<noteq> None"
proof (induction n rule: hex_digits.induct)
  case (1 n)
  show ?case
  proof (cases "n < 16")
    case True
    with "1.prems" show ?thesis
      by (simp add: hex_digits.simps [of n] hex_digit_value_nth)
  next
    case False
    with "1.prems" "1.IH" show ?thesis
      by (auto simp: hex_digits.simps [of n] hex_digit_value_nth)
  qed
qed

lemma hex_digits_nonempty: "hex_digits n \<noteq> []"
  by (subst hex_digits.simps) simp

lemma hex_digits_value:
  "foldl (\<lambda>acc c. 16 * acc + int (the (hex_digit_value c))) 0 (hex_digits n) = int n"
proof (induction n rule: hex_digits.induct)
  case (1 n)
  show ?case
  proof (cases "n < 16")
    case True
    then show ?thesis
      by (simp add: hex_digits.simps [of n] hex_digit_value_nth)
  next
    case False
    have "16 * int (n div 16) + int (n mod 16) = int n"
      by presburger
    with False "1.IH" show ?thesis
      by (simp add: hex_digits.simps [of n] hex_digit_value_nth)
  qed
qed

lemma int_base16_hex_digits: "int_base16 (hex_digits n) = Inr (int n)"
  using hex_digits_valid [of _ n]
  by (auto simp: int_base16_def hex_digits_nonempty hex_digits_value)

lemma foldl_ones:
  "foldl (\<lambda>acc c. 2 * acc + (if c = CHR ''1'' then 1 else 0)) a (replicate n CHR ''1'')
     = (a + 1) * 2 ^ n - (1::int)"
  by (induction n arbitrary: a) (simp_all add: algebra_simps)

lemma int_base2_ones: "0 < n \<Longrightarrow> int_base2 (replicate n CHR ''1'') = Inr (2 ^ n - 1)"
  by (simp add: int_base2_def foldl_ones)

lemma int_base2_empty: "int_base2 (replicate 0 CHR ''1'') = Inl ValueError"
  by (simp add: int_base2_def)

lemma map_of_dict_set_same: "map_of (dict_set k v kvs) k = Some v"
  by (induction kvs) auto

lemma map_of_dict_set_other: "k' \<noteq> k \<Longrightarrow> map_of (dict_set k v kvs) k' = map_of kvs k'"
  by (induction kvs) auto

lemma plugin_setting_overall:
  "plugin_setting k (overall_config pm dev iters pc) = map_of pc k"
  by (simp add: overall_config_def)

lemma bit_low_ones: "bit (2 ^ n - 1 :: int) i \<longleftrightarrow> i < n"
  by (simp flip: mask_eq_exp_minus_1 add: bit_mask_iff)

lemma hex_nonneg: "0 \<le> n \<Longrightarrow> hex n = ''0x'' @ hex_digits (nat n)"
  by (simp add: hex_def)

lemma int_base16_hex_digits_int: "0 \<le> n \<Longrightarrow> int_base16 (hex_digits (nat n)) = Inr n"
  by (simp add: int_base16_hex_digits)

text \<open>
  Claim C1. For every positive active-TPC count, \<open>generate_config\<close> with the method
  \<^verbatim>\<open>libsmctrl\<close> (in any letter case) returns a configuration whose \<^verbatim>\<open>sm_mask\<close> is
  \<^verbatim>\<open>~0x\<close> followed by hexadecimal digits; read back, the digits are the number
  \<open>2 ^ active - 1\<close>, whose set bits are exactly the \<open>active\<close> lowest ones. For five
  active TPCs the digits are \<^verbatim>\<open>1f\<close>, so the mask is \<^verbatim>\<open>~0x1f\<close>.
\<close>

theorem C1_libsmctrl_mask:
  assumes "0 < active_tpcs" and "lower part_method = ''libsmctrl''"
  shows "\<exists>cfg digits.
           generate_config os_system dev part_method total_tpcs active_tpcs iters w
             = (Inr cfg, w)
         \<and> plugin_setting ''sm_mask'' cfg = Some (JStr (''~0x'' @ digits))
         \<and> int_base16 digits = Inr (2 ^ nat active_tpcs - 1)
         \<and> (\<forall>i. bit (2 ^ nat active_tpcs - 1 :: int) i \<longleftrightarrow> i < nat active_tpcs)
         \<and> (active_tpcs = 5 \<longrightarrow> digits = ''1f'')"
proof -
  let ?n = "nat active_tpcs"
  let ?v = "2 ^ ?n - 1 :: int"
  from assms(1) have pos: "0 < ?n" by simp
  have nonneg: "0 \<le> ?v" by simp
  have parse: "int_base2 (replicate ?n CHR ''1'') = Inr ?v"
    using pos by (rule int_base2_ones)
  have hexv: "hex ?v = ''0x'' @ hex_digits (nat ?v)"
    using nonneg by (rule hex_nonneg)
  have not_mps: "lower part_method \<noteq> ''mps''"
    using assms(2) by simp
  have run: "generate_config os_system dev part_method total_tpcs active_tpcs iters w
      = (Inr (overall_config part_method dev iters
           (dict_set ''sm_mask'' (JStr (''~'' @ hex ?v))
              (plugin_config0 part_method active_tpcs))), w)"
    unfolding generate_config_def Let_def using not_mps assms(2) parse by simp
  have setting: "plugin_setting ''sm_mask'' (overall_config part_method dev iters
           (dict_set ''sm_mask'' (JStr (''~'' @ hex ?v))
              (plugin_config0 part_method active_tpcs)))
        = Some (JStr (''~0x'' @ hex_digits (nat ?v)))"
    by (simp add: plugin_setting_overall map_of_dict_set_same hexv)
  have rt: "int_base16 (hex_digits (nat ?v)) = Inr ?v"
    using nonneg by (rule int_base16_hex_digits_int)
  have five: "active_tpcs = 5 \<longrightarrow> hex_digits (nat ?v) = ''1f''"
  proof
    assume "active_tpcs = 5"
    then have "nat ?v = 31" by simp
    moreover have "hex_digits 31 = ''1f''" by code_simp
    ultimately show "hex_digits (nat ?v) = ''1f''" by simp
  qed
  show ?thesis
    using run setting rt five bit_low_ones [of ?n] by blast
qed

text \<open>The theorem at five of 54 TPCs, with an \<^verbatim>\<open>os.system\<close> that is never called.\<close>

theorem C1_libsmctrl_mask_witness:
  "generate_config (\<lambda>c w. (0, w)) 0 ''libsmctrl'' 54 5 10 ()
     = (Inr (overall_config ''libsmctrl'' 0 10
               (dict_set ''sm_mask'' (JStr ''~0x1f'') (plugin_config0 ''libsmctrl'' 5))), ())
   \<and> plugin_setting ''sm_mask''
        (overall_config ''libsmctrl'' 0 10
               (dict_set ''sm_mask'' (JStr ''~0x1f'') (plugin_config0 ''libsmctrl'' 5)))
       = Some (JStr ''~0x1f'')
   \<and> int_base16 ''1f'' = Inr 31 \<and> bit (31 :: int) 4 \<and> \<not> bit (31 :: int) 5"
proof -
  have h1: "(0::int) < 5" by simp
  have h2: "lower ''libsmctrl'' = ''libsmctrl''" by code_simp
  from C1_libsmctrl_mask [OF h1 h2, of "\<lambda>c w. (0, w)" 0 54 10 "()"]
  obtain cfg digits where
    g: "generate_config (\<lambda>c w. (0, w)) 0 ''libsmctrl'' 54 5 10 () = (Inr cfg, ())"
    and s: "plugin_setting ''sm_mask'' cfg = Some (JStr (''~0x'' @ digits))"
    and d: "digits = ''1f''"
    and b: "int_base16 digits = Inr (2 ^ nat 5 - 1)"
    and bits: "\<forall>i. bit (2 ^ nat 5 - 1 :: int) i \<longleftrightarrow> i < nat 5"
    by blast
  have e: "generate_config (\<lambda>c w. (0, w)) 0 ''libsmctrl'' 54 5 10 ()
     = (Inr (overall_config ''libsmctrl'' 0 10
               (dict_set ''sm_mask'' (JStr ''~0x1f'') (plugin_config0 ''libsmctrl'' 5))), ())"
    by code_simp
  from g e have c: "cfg = overall_config ''libsmctrl'' 0 10
               (dict_set ''sm_mask'' (JStr ''~0x1f'') (plugin_config0 ''libsmctrl'' 5))"
    by simp
  have b4: "bit (31 :: int) 4" using bits [rule_format, of 4] by simp
  have b5: "\<not> bit (31 :: int) 5" using bits [rule_format, of 5] by simp
  from b d have b16: "int_base16 ''1f'' = Inr 31" by simp
  show ?thesis using e s c d b16 b4 b5 by simp
qed

subsection \<open>Percentage-based partitioning\<close>




lemma mps_run:
  assumes "lower part_method = ''mps''" and "total_tpcs \<noteq> 0"
  shows "generate_config os_system dev part_method total_tpcs active_tpcs iters w
      = (Inr (overall_config part_method dev iters
           (dict_set ''mps_thread_percentage''
              (if py_round4 (of_int (100 * active_tpcs) / of_int total_tpcs + epsilon) < 100
               then JFloat (py_round4 (of_int (100 * active_tpcs) / of_int total_tpcs + epsilon))
               else JInt 100)
              (plugin_config0 part_method active_tpcs))), w)"
  unfolding generate_config_def Let_def using assms by simp








subsection \<open>Hardware partitions\<close>

lemma MIG_CONFIGS_none:
  "active_tpcs \<notin> {7, 14, 21, 28, 49} \<Longrightarrow> map_of MIG_CONFIGS active_tpcs = None"
  by (simp add: MIG_CONFIGS_def)

lemma MIG_CONFIGS_dom: "dom (map_of MIG_CONFIGS) = {7, 14, 21, 28, 49}"
  by (auto simp: MIG_CONFIGS_def split: if_splits)

lemma mig_setup_rejects:
  assumes "map_of MIG_CONFIGS active_tpcs = None"
  shows "\<exists>w'. mig_setup os_system active_tpcs w
           = (Inl (Exception ''MiG-capable GPU required for MiG experiments!''), w')
         \<or> mig_setup os_system active_tpcs w = (Inl (KeyError (JInt active_tpcs)), w')"
  unfolding mig_setup_def Let_def using assms
  by (cases "os_system ''nvidia-smi mig --list-gpu-instance-profiles'' w") simp

lemma mig_run:
  assumes "lower part_method = ''mig''"
  shows "generate_config os_system dev part_method total_tpcs active_tpcs iters w
     = (case mig_setup os_system active_tpcs w of
          (Inl e, w1) \<Rightarrow> (Inl e, w1)
        | (Inr config, w1) \<Rightarrow>
            (Inr (overall_config part_method dev iters (plugin_config0 part_method active_tpcs)),
             w1))"
  unfolding generate_config_def Let_def using assms by simp

text \<open>
  Claim C3. The table \<open>MIG_CONFIGS\<close> has exactly the keys 7, 14, 21, 28 and 49, and for
  every other active-TPC count \<open>generate_config\<close> with the method \<^verbatim>\<open>mig\<close> raises:
  the capability error when the first \<^verbatim>\<open>nvidia-smi\<close> call fails, the KeyError of the
  table lookup otherwise. No configuration is returned.
\<close>

theorem C3_mig_enumeration:
  assumes "active_tpcs \<notin> {7, 14, 21, 28, 49}" and "lower part_method = ''mig''"
  shows "dom (map_of MIG_CONFIGS) = {7, 14, 21, 28, 49}
       \<and> (\<exists>w'. generate_config os_system dev part_method total_tpcs active_tpcs iters w
                  = (Inl (Exception ''MiG-capable GPU required for MiG experiments!''), w')
               \<or> generate_config os_system dev part_method total_tpcs active_tpcs iters w
                  = (Inl (KeyError (JInt active_tpcs)), w'))"
proof -
  from assms(1) have "map_of MIG_CONFIGS active_tpcs = None"
    by (rule MIG_CONFIGS_none)
  from mig_setup_rejects [OF this, of os_system w] obtain w' where
    ms: "mig_setup os_system active_tpcs w
           = (Inl (Exception ''MiG-capable GPU required for MiG experiments!''), w')
     \<or> mig_setup os_system active_tpcs w = (Inl (KeyError (JInt active_tpcs)), w')" ..
  have "generate_config os_system dev part_method total_tpcs active_tpcs iters w
                  = (Inl (Exception ''MiG-capable GPU required for MiG experiments!''), w')
               \<or> generate_config os_system dev part_method total_tpcs active_tpcs iters w
                  = (Inl (KeyError (JInt active_tpcs)), w')"
    using ms
  proof
    assume "mig_setup os_system active_tpcs w
           = (Inl (Exception ''MiG-capable GPU required for MiG experiments!''), w')"
    then show ?thesis by (simp add: mig_run [OF assms(2)])
  next
    assume "mig_setup os_system active_tpcs w = (Inl (KeyError (JInt active_tpcs)), w')"
    then show ?thesis by (simp add: mig_run [OF assms(2)])
  qed
  then have "\<exists>w'. generate_config os_system dev part_method total_tpcs active_tpcs iters w
                  = (Inl (Exception ''MiG-capable GPU required for MiG experiments!''), w')
               \<or> generate_config os_system dev part_method total_tpcs active_tpcs iters w
                  = (Inl (KeyError (JInt active_tpcs)), w')" ..
  with MIG_CONFIGS_dom show ?thesis ..
qed

text \<open>
  The theorem at eight TPCs, once with a working \<^verbatim>\<open>nvidia-smi\<close> and once with one that
  exits with status 6.
\<close>

theorem C3_mig_enumeration_witness:
  "(8::int) \<notin> {7, 14, 21, 28, 49}
   \<and> generate_config (\<lambda>c w. (0, w)) 0 ''mig'' 54 8 10 () = (Inl (KeyError (JInt 8)), ())
   \<and> generate_config (\<lambda>c w. (6 * 256, w)) 0 ''mig'' 54 8 10 ()
       = (Inl (Exception ''MiG-capable GPU required for MiG experiments!''), ())"
proof -
  have h1: "(8::int) \<notin> {7, 14, 21, 28, 49}" by simp
  have h2: "lower ''mig'' = ''mig''" by code_simp
  note t = C3_mig_enumeration [OF h1 h2, of _ 0 54 10 "()"]
  have a: "generate_config (\<lambda>c w. (0, w)) 0 ''mig'' 54 8 10 ()
      \<noteq> (Inl (Exception ''MiG-capable GPU required for MiG experiments!''), ())"
    by code_simp
  have b: "generate_config (\<lambda>c w. (6 * 256, w)) 0 ''mig'' 54 8 10 ()
      \<noteq> (Inl (KeyError (JInt 8)), ())"
    by code_simp
  from t [of "\<lambda>c w. (0, w)"] a
  have c: "generate_config (\<lambda>c w. (0, w)) 0 ''mig'' 54 8 10 () = (Inl (KeyError (JInt 8)), ())"
    by auto
  from t [of "\<lambda>c w. (6 * 256, w)"] b
  have d: "generate_config (\<lambda>c w. (6 * 256, w)) 0 ''mig'' 54 8 10 ()
       = (Inl (Exception ''MiG-capable GPU required for MiG experiments!''), ())"
    by auto
  show ?thesis using h1 c d by simp
qed

subsection \<open>Unknown methods\<close>

lemma unknown_run:
  assumes "lower part_method \<notin> {''mps'', ''libsmctrl'', ''mig''}"
  shows "generate_config os_system dev part_method total_tpcs active_tpcs iters w
           = (Inl (unknown_method part_method), w)"
  unfolding generate_config_def Let_def unknown_method_def using assms by simp

text \<open>
  Claim C6, as amended. For every method name whose lower-cased form is none of
  \<^verbatim>\<open>mps\<close>, \<^verbatim>\<open>libsmctrl\<close> and \<^verbatim>\<open>mig\<close>, \<open>generate_config\<close> raises the exception
  \<^verbatim>\<open>Unknown partitioning type '<name>'!\<close> with the name as given, returns no
  configuration and runs no external command.
\<close>

theorem C6_unknown_method:
  assumes "lower part_method \<notin> {''mps'', ''libsmctrl'', ''mig''}"
  shows "generate_config os_system dev part_method total_tpcs active_tpcs iters w
           = (Inl (unknown_method part_method), w)"
  using assms by (rule unknown_run)

text \<open>
  A name outside the three lower-case spellings that is accepted all the same: the
  dispatch compares the lower-cased name.
\<close>

theorem C6_unknown_method_counterexample:
  "''MPS'' \<notin> {''mps'', ''libsmctrl'', ''mig''}
   \<and> generate_config (\<lambda>c w. (0, w)) 0 ''MPS'' 10 5 10 ()
       = (Inr (overall_config ''MPS'' 0 10
                 (dict_set ''mps_thread_percentage'' (JFloat (500001 / 10000))
                    (plugin_config0 ''MPS'' 5))), ())"
proof -
  have "''MPS'' \<notin> {''mps'', ''libsmctrl'', ''mig''}" by simp
  moreover have "generate_config (\<lambda>c w. (0, w)) 0 ''MPS'' 10 5 10 ()
       = (Inr (overall_config ''MPS'' 0 10
                 (dict_set ''mps_thread_percentage'' (JFloat (500001 / 10000))
                    (plugin_config0 ''MPS'' 5))), ())"
    by code_simp
  ultimately show ?thesis by simp
qed

text \<open>The theorem at the name \<^verbatim>\<open>cu_mask\<close>.\<close>

theorem C6_unknown_method_witness:
  "lower ''cu_mask'' \<notin> {''mps'', ''libsmctrl'', ''mig''}
   \<and> generate_config (\<lambda>c w. (0, w)) 0 ''cu_mask'' 10 5 10 ()
       = (Inl (Exception ''Unknown partitioning type 'cu_mask'!''), ())"
proof -
  have h: "lower ''cu_mask'' \<notin> {''mps'', ''libsmctrl'', ''mig''}" by code_simp
  have "unknown_method ''cu_mask'' = Exception ''Unknown partitioning type 'cu_mask'!''"
    by code_simp
  with C6_unknown_method [OF h, of "\<lambda>c w. (0, w)" 0 10 5 10 "()"] h show ?thesis
    by simp
qed

subsection \<open>Case-insensitive dispatch\<close>

lemma lower_char_idem: "lower_char (lower_char c) = lower_char c"
proof -
  have "of_char (char_of (of_char c + 32 :: nat)) = ((of_char c + 32) mod 256 :: nat)"
    by (simp add: of_char_of)
  then show ?thesis
    unfolding lower_char_def Let_def by (auto simp: of_char_of)
qed

lemma lower_idem: "lower (lower s) = lower s"
  by (simp add: lower_def lower_char_idem)

lemma map_of_plugin_config0:
  "k \<noteq> ''log_name'' \<Longrightarrow> map_of (plugin_config0 m a) k = map_of (plugin_config0 m' a) k"
  by (simp add: plugin_config0_def)

lemma top_setting_overall:
  "k \<noteq> ''name'' \<Longrightarrow> k \<noteq> ''benchmarks'' \<Longrightarrow>
     top_setting k (overall_config m dev iters pc) = top_setting k (overall_config m' dev iters pc')"
  by (simp add: overall_config_def)

lemma top_setting_name:
  "top_setting ''name'' (overall_config m dev iters pc)
     = Some (JStr (''TPC Count vs. Performance with '' @ m))"
  by (simp add: overall_config_def)

lemma libsmctrl_run:
  assumes "lower part_method = ''libsmctrl''"
  shows "generate_config os_system dev part_method total_tpcs active_tpcs iters w
     = (case int_base2 (replicate (nat active_tpcs) CHR ''1'') of
          Inl e \<Rightarrow> (Inl e, w)
        | Inr enabled \<Rightarrow>
            (Inr (overall_config part_method dev iters
                    (dict_set ''sm_mask'' (JStr (''~'' @ hex enabled))
                       (plugin_config0 part_method active_tpcs))), w))"
  unfolding generate_config_def Let_def using assms by simp

lemma mps_run_zero:
  assumes "lower part_method = ''mps''"
  shows "generate_config os_system dev part_method 0 active_tpcs iters w
     = (Inl ZeroDivisionError, w)"
  unfolding generate_config_def Let_def using assms by simp

lemma map_of_dict_set:
  "map_of (dict_set K V kvs) k = (if k = K then Some V else map_of kvs k)"
  by (simp add: map_of_dict_set_same map_of_dict_set_other)

lemma plugin_setting_set:
  "plugin_setting k (overall_config m dev iters (dict_set K V (plugin_config0 m a)))
     = (if k = K then Some V else map_of (plugin_config0 m a) k)"
  by (simp add: plugin_setting_overall map_of_dict_set_same map_of_dict_set_other)

lemma log_name_plain:
  "map_of (plugin_config0 m a) ''log_name''
     = Some (JStr (''eurosys25_'' @ m @ ''_'' @ str a @ ''tpcs.json''))"
  by (simp add: plugin_config0_def)

text \<open>How two configurations built for two spellings of a method compare.\<close>

lemma overall_config_related:
  assumes "pc = plugin_config0 m a \<and> pc' = plugin_config0 m' a
         \<or> K \<noteq> ''log_name'' \<and> pc = dict_set K V (plugin_config0 m a)
            \<and> pc' = dict_set K V (plugin_config0 m' a)"
  shows "(\<forall>k. k \<noteq> ''log_name'' \<longrightarrow>
            plugin_setting k (overall_config m' dev iters pc')
              = plugin_setting k (overall_config m dev iters pc))
       \<and> (\<forall>k. k \<noteq> ''name'' \<longrightarrow> k \<noteq> ''benchmarks'' \<longrightarrow>
            top_setting k (overall_config m' dev iters pc')
              = top_setting k (overall_config m dev iters pc))
       \<and> top_setting ''name'' (overall_config m dev iters pc)
            = Some (JStr (''TPC Count vs. Performance with '' @ m))
       \<and> top_setting ''name'' (overall_config m' dev iters pc')
            = Some (JStr (''TPC Count vs. Performance with '' @ m'))
       \<and> plugin_setting ''log_name'' (overall_config m dev iters pc)
            = Some (JStr (''eurosys25_'' @ m @ ''_'' @ str a @ ''tpcs.json''))
       \<and> plugin_setting ''log_name'' (overall_config m' dev iters pc')
            = Some (JStr (''eurosys25_'' @ m' @ ''_'' @ str a @ ''tpcs.json''))"
proof -
  have 1: "\<forall>k. k \<noteq> ''log_name'' \<longrightarrow> map_of pc' k = map_of pc k"
    using assms map_of_plugin_config0 [of _ m' a m]
    by (auto simp: map_of_dict_set)
  have 2: "map_of pc ''log_name'' = Some (JStr (''eurosys25_'' @ m @ ''_'' @ str a @ ''tpcs.json''))"
    using assms by (auto simp: log_name_plain map_of_dict_set_other)
  have 3: "map_of pc' ''log_name'' = Some (JStr (''eurosys25_'' @ m' @ ''_'' @ str a @ ''tpcs.json''))"
    using assms by (auto simp: log_name_plain map_of_dict_set_other)
  show ?thesis
    using 1 2 3 top_setting_overall [of _ m' dev iters pc' m pc]
    by (simp add: plugin_setting_overall top_setting_name)
qed

text \<open>
  Claim C9, as amended. \<open>generate_config\<close> dispatches on the lower-cased method name:
  applied to a name \<open>m\<close> and to \<open>lower m\<close> it takes the same branch. Both calls leave
  the same world; both raise or both return; an exception of one of the three method
  branches is the same for both; the two configurations agree on every key of the
  benchmark entry but \<^verbatim>\<open>log_name\<close> and on every top-level key but \<^verbatim>\<open>name\<close> (and
  \<^verbatim>\<open>benchmarks\<close>, which holds the entry). The \<^verbatim>\<open>name\<close>, the \<^verbatim>\<open>log_name\<close> and the
  message of the unknown-method exception carry the method name as it was given.
\<close>

theorem C9_case_insensitive_dispatch:
  "lower (lower m) = lower m
   \<and> snd (generate_config os_system dev (lower m) total_tpcs active_tpcs iters w)
       = snd (generate_config os_system dev m total_tpcs active_tpcs iters w)
   \<and> (lower m \<notin> {''mps'', ''libsmctrl'', ''mig''} \<longrightarrow>
         fst (generate_config os_system dev m total_tpcs active_tpcs iters w)
           = Inl (unknown_method m)
       \<and> fst (generate_config os_system dev (lower m) total_tpcs active_tpcs iters w)
           = Inl (unknown_method (lower m)))
   \<and> (lower m \<in> {''mps'', ''libsmctrl'', ''mig''} \<longrightarrow>
         (\<forall>e. fst (generate_config os_system dev m total_tpcs active_tpcs iters w) = Inl e \<longrightarrow>
              fst (generate_config os_system dev (lower m) total_tpcs active_tpcs iters w)
                = Inl e))
   \<and> (\<forall>cfg. fst (generate_config os_system dev m total_tpcs active_tpcs iters w) = Inr cfg \<longrightarrow>
         (\<exists>cfg'. fst (generate_config os_system dev (lower m) total_tpcs active_tpcs iters w)
                   = Inr cfg'
            \<and> (\<forall>k. k \<noteq> ''log_name'' \<longrightarrow> plugin_setting k cfg' = plugin_setting k cfg)
            \<and> (\<forall>k. k \<noteq> ''name'' \<longrightarrow> k \<noteq> ''benchmarks'' \<longrightarrow>
                  top_setting k cfg' = top_setting k cfg)
            \<and> top_setting ''name'' cfg
                 = Some (JStr (''TPC Count vs. Performance with '' @ m))
            \<and> top_setting ''name'' cfg'
                 = Some (JStr (''TPC Count vs. Performance with '' @ lower m))
            \<and> plugin_setting ''log_name'' cfg
                 = Some (JStr (''eurosys25_'' @ m @ ''_'' @ str active_tpcs @ ''tpcs.json''))
            \<and> plugin_setting ''log_name'' cfg'
                 = Some (JStr (''eurosys25_'' @ lower m @ ''_'' @ str active_tpcs @
                               ''tpcs.json''))))"
  (is "?idem \<and> ?world \<and> ?unknown \<and> ?errors \<and> ?configs")
proof -
  let ?G = "\<lambda>pm. generate_config os_system dev pm total_tpcs active_tpcs iters w"
  have idem: "lower (lower m) = lower m" by (rule lower_idem)
  consider (mps0) "lower m = ''mps''" "total_tpcs = 0"
    | (mps) "lower m = ''mps''" "total_tpcs \<noteq> 0"
    | (libsmctrl) "lower m = ''libsmctrl''"
    | (mig) "lower m = ''mig''"
    | (other) "lower m \<notin> {''mps'', ''libsmctrl'', ''mig''}"
    by auto
  then have "?world \<and> ?unknown \<and> ?errors \<and> ?configs"
  proof cases
    case mps0
    then have 1: "?G m = (Inl ZeroDivisionError, w)"
      by (simp add: mps_run_zero)
    from mps0 idem have 2: "?G (lower m) = (Inl ZeroDivisionError, w)"
      by (simp add: mps_run_zero)
    show ?thesis unfolding 1 2 using mps0 by simp
  next
    case mps
    let ?r = "py_round4 (of_int (100 * active_tpcs) / of_int total_tpcs + epsilon)"
    let ?V = "if ?r < 100 then JFloat ?r else JInt 100"
    have 1: "?G m = (Inr (overall_config m dev iters
                 (dict_set ''mps_thread_percentage'' ?V (plugin_config0 m active_tpcs))), w)"
      using mps by (rule mps_run)
    have "lower (lower m) = ''mps''" using mps idem by simp
    then have 2: "?G (lower m) = (Inr (overall_config (lower m) dev iters
                 (dict_set ''mps_thread_percentage'' ?V (plugin_config0 (lower m) active_tpcs))), w)"
      using mps(2) by (rule mps_run)
    have rel: "''mps_thread_percentage'' \<noteq> ''log_name''
         \<and> dict_set ''mps_thread_percentage'' ?V (plugin_config0 m active_tpcs)
             = dict_set ''mps_thread_percentage'' ?V (plugin_config0 m active_tpcs)
         \<and> dict_set ''mps_thread_percentage'' ?V (plugin_config0 (lower m) active_tpcs)
             = dict_set ''mps_thread_percentage'' ?V (plugin_config0 (lower m) active_tpcs)"
      by simp
    show ?thesis unfolding 1 2
      using mps(1) overall_config_related [OF disjI2, OF rel, of dev iters] by simp
  next
    case libsmctrl
    have l2: "lower (lower m) = ''libsmctrl''" using libsmctrl idem by simp
    show ?thesis
    proof (cases "int_base2 (replicate (nat active_tpcs) CHR ''1'')")
      case (Inl e)
      then have 1: "?G m = (Inl e, w)" by (simp add: libsmctrl_run [OF libsmctrl])
      from Inl have 2: "?G (lower m) = (Inl e, w)" by (simp add: libsmctrl_run [OF l2])
      show ?thesis unfolding 1 2 using libsmctrl by simp
    next
      case (Inr enabled)
      let ?V = "JStr (''~'' @ hex enabled)"
      from Inr have 1: "?G m = (Inr (overall_config m dev iters
                 (dict_set ''sm_mask'' ?V (plugin_config0 m active_tpcs))), w)"
        by (simp add: libsmctrl_run [OF libsmctrl])
      from Inr have 2: "?G (lower m) = (Inr (overall_config (lower m) dev iters
                 (dict_set ''sm_mask'' ?V (plugin_config0 (lower m) active_tpcs))), w)"
        by (simp add: libsmctrl_run [OF l2])
      have rel: "''sm_mask'' \<noteq> ''log_name''
           \<and> dict_set ''sm_mask'' ?V (plugin_config0 m active_tpcs)
               = dict_set ''sm_mask'' ?V (plugin_config0 m active_tpcs)
           \<and> dict_set ''sm_mask'' ?V (plugin_config0 (lower m) active_tpcs)
               = dict_set ''sm_mask'' ?V (plugin_config0 (lower m) active_tpcs)"
        by simp
      show ?thesis unfolding 1 2
        using libsmctrl overall_config_related [OF disjI2, OF rel, of dev iters] by simp
    qed
  next
    case mig
    have l2: "lower (lower m) = ''mig''" using mig idem by simp
    obtain r w1 where ms: "mig_setup os_system active_tpcs w = (r, w1)"
      by (cases "mig_setup os_system active_tpcs w")
    show ?thesis
    proof (cases r)
      case (Inl e)
      with ms have 1: "?G m = (Inl e, w1)" by (simp add: mig_run [OF mig])
      from Inl ms have 2: "?G (lower m) = (Inl e, w1)" by (simp add: mig_run [OF l2])
      show ?thesis unfolding 1 2 using mig by simp
    next
      case (Inr config)
      with ms have 1: "?G m = (Inr (overall_config m dev iters
                 (plugin_config0 m active_tpcs)), w1)"
        by (simp add: mig_run [OF mig])
      from Inr ms have 2: "?G (lower m) = (Inr (overall_config (lower m) dev iters
                 (plugin_config0 (lower m) active_tpcs)), w1)"
        by (simp add: mig_run [OF l2])
      have rel: "plugin_config0 m active_tpcs = plugin_config0 m active_tpcs
           \<and> plugin_config0 (lower m) active_tpcs = plugin_config0 (lower m) active_tpcs"
        by simp
      show ?thesis unfolding 1 2
        using mig overall_config_related [OF disjI1, OF rel, of dev iters] by simp
    qed
  next
    case other
    then have 1: "?G m = (Inl (unknown_method m), w)" by (rule unknown_run)
    from other idem have "lower (lower m) \<notin> {''mps'', ''libsmctrl'', ''mig''}" by simp
    then have 2: "?G (lower m) = (Inl (unknown_method (lower m)), w)" by (rule unknown_run)
    show ?thesis unfolding 1 2 using other by simp
  qed
  with idem show ?thesis by (rule conjI)
qed

text \<open>
  The results themselves differ as soon as the name has an upper-case letter, for a
  configuration and for the exception alike.
\<close>

theorem C9_same_result_counterexample:
  "generate_config (\<lambda>c w. (0, w)) 0 ''MPS'' 10 5 10 ()
     = (Inr (overall_config ''MPS'' 0 10
               (dict_set ''mps_thread_percentage'' (JFloat (500001 / 10000))
                  (plugin_config0 ''MPS'' 5))), ())
   \<and> generate_config (\<lambda>c w. (0, w)) 0 (lower ''MPS'') 10 5 10 ()
     = (Inr (overall_config ''mps'' 0 10
               (dict_set ''mps_thread_percentage'' (JFloat (500001 / 10000))
                  (plugin_config0 ''mps'' 5))), ())
   \<and> generate_config (\<lambda>c w. (0, w)) 0 ''MPS'' 10 5 10 ()
       \<noteq> generate_config (\<lambda>c w. (0, w)) 0 (lower ''MPS'') 10 5 10 ()
   \<and> generate_config (\<lambda>c w. (0, w)) 0 ''FOO'' 10 5 10 ()
     = (Inl (Exception ''Unknown partitioning type 'FOO'!''), ())
   \<and> generate_config (\<lambda>c w. (0, w)) 0 (lower ''FOO'') 10 5 10 ()
     = (Inl (Exception ''Unknown partitioning type 'foo'!''), ())
   \<and> generate_config (\<lambda>c w. (0, w)) 0 ''FOO'' 10 5 10 ()
       \<noteq> generate_config (\<lambda>c w. (0, w)) 0 (lower ''FOO'') 10 5 10 ()"
proof -
  have 1: "generate_config (\<lambda>c w. (0, w)) 0 ''MPS'' 10 5 10 ()
     = (Inr (overall_config ''MPS'' 0 10
               (dict_set ''mps_thread_percentage'' (JFloat (500001 / 10000))
                  (plugin_config0 ''MPS'' 5))), ())"
    by code_simp
  have 2: "generate_config (\<lambda>c w. (0, w)) 0 (lower ''MPS'') 10 5 10 ()
     = (Inr (overall_config ''mps'' 0 10
               (dict_set ''mps_thread_percentage'' (JFloat (500001 / 10000))
                  (plugin_config0 ''mps'' 5))), ())"
    by code_simp
  have 3: "overall_config ''MPS'' 0 10 pc \<noteq> overall_config ''mps'' 0 10 pc'" for pc pc'
    by (simp add: overall_config_def)
  have 4: "generate_config (\<lambda>c w. (0, w)) 0 ''FOO'' 10 5 10 ()
     = (Inl (Exception ''Unknown partitioning type 'FOO'!''), ())"
    by code_simp
  have 5: "generate_config (\<lambda>c w. (0, w)) 0 (lower ''FOO'') 10 5 10 ()
     = (Inl (Exception ''Unknown partitioning type 'foo'!''), ())"
    by code_simp
  show ?thesis
    unfolding 1 2 4 5 using 3 by simp
qed

text \<open>The theorem at the name \<^verbatim>\<open>MPS\<close>.\<close>

theorem C9_case_insensitive_dispatch_witness:
  "lower ''MPS'' = ''mps''
   \<and> fst (generate_config (\<lambda>c w. (0, w)) 0 (lower ''MPS'') 10 5 10 ())
       = Inr (overall_config ''mps'' 0 10
               (dict_set ''mps_thread_percentage'' (JFloat (500001 / 10000))
                  (plugin_config0 ''mps'' 5)))
   \<and> plugin_setting ''mps_thread_percentage''
        (overall_config ''mps'' 0 10
               (dict_set ''mps_thread_percentage'' (JFloat (500001 / 10000))
                  (plugin_config0 ''mps'' 5)))
       = plugin_setting ''mps_thread_percentage''
        (overall_config ''MPS'' 0 10
               (dict_set ''mps_thread_percentage'' (JFloat (500001 / 10000))
                  (plugin_config0 ''MPS'' 5)))
   \<and> top_setting ''name''
        (overall_config ''MPS'' 0 10
               (dict_set ''mps_thread_percentage'' (JFloat (500001 / 10000))
                  (plugin_config0 ''MPS'' 5)))
       = Some (JStr ''TPC Count vs. Performance with MPS'')"
proof -
  let ?U = "overall_config ''MPS'' 0 10
               (dict_set ''mps_thread_percentage'' (JFloat (500001 / 10000))
                  (plugin_config0 ''MPS'' 5))"
  let ?L = "overall_config ''mps'' 0 10
               (dict_set ''mps_thread_percentage'' (JFloat (500001 / 10000))
                  (plugin_config0 ''mps'' 5))"
  have low: "lower ''MPS'' = ''mps''" by code_simp
  have u: "fst (generate_config (\<lambda>c w. (0, w)) 0 ''MPS'' 10 5 10 ()) = Inr ?U"
    by code_simp
  have l: "fst (generate_config (\<lambda>c w. (0, w)) 0 (lower ''MPS'') 10 5 10 ()) = Inr ?L"
    by code_simp
  note t = C9_case_insensitive_dispatch [of "''MPS''" "\<lambda>c w. (0, w)" 0 10 5 10 "()"]
  from t have "\<forall>cfg. fst (generate_config (\<lambda>c w. (0, w)) 0 ''MPS'' 10 5 10 ()) = Inr cfg \<longrightarrow>
         (\<exists>cfg'. fst (generate_config (\<lambda>c w. (0, w)) 0 (lower ''MPS'') 10 5 10 ()) = Inr cfg'
            \<and> (\<forall>k. k \<noteq> ''log_name'' \<longrightarrow> plugin_setting k cfg' = plugin_setting k cfg)
            \<and> top_setting ''name'' cfg = Some (JStr (''TPC Count vs. Performance with '' @ ''MPS'')))"
    by blast
  with u obtain cfg' where
    c: "fst (generate_config (\<lambda>c w. (0, w)) 0 (lower ''MPS'') 10 5 10 ()) = Inr cfg'"
    and p: "\<forall>k. k \<noteq> ''log_name'' \<longrightarrow> plugin_setting k cfg' = plugin_setting k ?U"
    and n: "top_setting ''name'' ?U = Some (JStr (''TPC Count vs. Performance with '' @ ''MPS''))"
    by blast
  from c l have "cfg' = ?L" by simp
  with p have "plugin_setting ''mps_thread_percentage'' ?L
      = plugin_setting ''mps_thread_percentage'' ?U"
    by simp
  with low l n show ?thesis by simp
qed

section \<open>Properties of the sweep driver\<close>

lemma print_keeps [simp]: "launched (print line s) = launched s" "world (print line s) = world s"
  by (simp_all add: print_def)

text \<open>
  Claim C7. The driver exits with status 22, with no runner started and the world outside
  untouched, whenever a unit-count argument is invalid: a given \<^verbatim>\<open>--tpc_count\<close> that is
  not positive, a \<^verbatim>\<open>--start_count\<close> that is not positive, or, outside MiG mode and with
  the capability query available, a given \<^verbatim>\<open>--tpc_count\<close> above the detected number of
  TPCs.
\<close>

theorem C7_invalid_count_exits_22:
  assumes "(\<exists>n. args_tpc_count a = Some n \<and> n \<le> 0)
         \<or> (\<exists>k. args_start_count a = Some k \<and> k \<le> 0)
         \<or> (\<not> args_mig a \<and> pysmctrl
            \<and> (\<exists>n. args_tpc_count a = Some n \<and> get_tpc_info_cuda (args_device a) w0 < n))"
  shows "fst (main pysmctrl get_tpc_info_cuda os_system runner a w0) = Exit 22
       \<and> launched (snd (main pysmctrl get_tpc_info_cuda os_system runner a w0)) = []
       \<and> world (snd (main pysmctrl get_tpc_info_cuda os_system runner a w0)) = w0"
proof (cases "\<exists>n. args_tpc_count a = Some n \<and> n \<le> 0")
  case True
  then show ?thesis
    unfolding main_def Let_def by auto
next
  case no_bad_total: False
  show ?thesis
  proof (cases "\<exists>k. args_start_count a = Some k \<and> k \<le> 0")
    case True
    with no_bad_total show ?thesis
      unfolding main_def Let_def by (auto split: option.splits)
  next
    case False
    with no_bad_total assms obtain n where
      "\<not> args_mig a" "pysmctrl" "args_tpc_count a = Some n"
      "get_tpc_info_cuda (args_device a) w0 < n" "0 < n"
      by force
    with False show ?thesis
      unfolding main_def Let_def by (auto split: option.splits)
  qed
qed

text \<open>
  The theorem on three command lines, with 54 TPCs detected: \<^verbatim>\<open>--tpc_count 0\<close>,
  \<^verbatim>\<open>--start_count 0\<close> and \<^verbatim>\<open>--tpc_count 60\<close>.
\<close>

theorem C7_invalid_count_exits_22_witness:
  "fst (main True (\<lambda>d w. 54) (\<lambda>c w. (0, w)) (\<lambda>c w. w)
         \<lparr>args_tpc_count = Some 0, args_start_count = Some 1, args_mig = False,
          args_device = 0, args_iterations = 10\<rparr> ()) = Exit 22
   \<and> fst (main True (\<lambda>d w. 54) (\<lambda>c w. (0, w)) (\<lambda>c w. w)
         \<lparr>args_tpc_count = None, args_start_count = Some 0, args_mig = True,
          args_device = 0, args_iterations = 10\<rparr> ()) = Exit 22
   \<and> fst (main True (\<lambda>d w. 54) (\<lambda>c w. (0, w)) (\<lambda>c w. w)
         \<lparr>args_tpc_count = Some 60, args_start_count = Some 1, args_mig = False,
          args_device = 0, args_iterations = 10\<rparr> ()) = Exit 22
   \<and> launched (snd (main True (\<lambda>d w. 54) (\<lambda>c w. (0, w)) (\<lambda>c w. w)
         \<lparr>args_tpc_count = Some 60, args_start_count = Some 1, args_mig = False,
          args_device = 0, args_iterations = 10\<rparr> ())) = []"
proof -
  let ?a1 = "\<lparr>args_tpc_count = Some 0, args_start_count = Some 1, args_mig = False,
          args_device = 0, args_iterations = 10\<rparr>"
  let ?a2 = "\<lparr>args_tpc_count = None, args_start_count = Some 0, args_mig = True,
          args_device = 0, args_iterations = 10\<rparr>"
  let ?a3 = "\<lparr>args_tpc_count = Some 60, args_start_count = Some 1, args_mig = False,
          args_device = 0, args_iterations = 10\<rparr>"
  have h1: "(\<exists>n. args_tpc_count ?a1 = Some n \<and> n \<le> 0)
         \<or> (\<exists>k. args_start_count ?a1 = Some k \<and> k \<le> 0)
         \<or> (\<not> args_mig ?a1 \<and> True
            \<and> (\<exists>n. args_tpc_count ?a1 = Some n \<and> (\<lambda>d w. 54) (args_device ?a1) () < n))"
    by simp
  have h2: "(\<exists>n. args_tpc_count ?a2 = Some n \<and> n \<le> 0)
         \<or> (\<exists>k. args_start_count ?a2 = Some k \<and> k \<le> 0)
         \<or> (\<not> args_mig ?a2 \<and> True
            \<and> (\<exists>n. args_tpc_count ?a2 = Some n \<and> (\<lambda>d w. 54) (args_device ?a2) () < n))"
    by simp
  have h3: "(\<exists>n. args_tpc_count ?a3 = Some n \<and> n \<le> 0)
         \<or> (\<exists>k. args_start_count ?a3 = Some k \<and> k \<le> 0)
         \<or> (\<not> args_mig ?a3 \<and> True
            \<and> (\<exists>n. args_tpc_count ?a3 = Some n \<and> (\<lambda>d w. 54) (args_device ?a3) () < n))"
    by simp
  show ?thesis
    using C7_invalid_count_exits_22 [of ?a1 True "\<lambda>d w. 54" "()" "\<lambda>c w. (0, w)" "\<lambda>c w. w", OF h1]
      C7_invalid_count_exits_22 [of ?a2 True "\<lambda>d w. 54" "()" "\<lambda>c w. (0, w)" "\<lambda>c w. w", OF h2]
      C7_invalid_count_exits_22 [of ?a3 True "\<lambda>d w. 54" "()" "\<lambda>c w. (0, w)" "\<lambda>c w. w", OF h3]
    by simp
qed

section \<open>Properties of the result aggregator\<close>

subsection \<open>The summary of one file\<close>

lemma durations_loop_even:
  "even i \<Longrightarrow> i \<le> length timestamps \<Longrightarrow>
     durations_loop timestamps i durations =
       (if even (length timestamps)
        then Inr (durations @ map (\<lambda>k. timestamps ! (2 * k + 1) - timestamps ! (2 * k))
                                [i div 2..<length timestamps div 2])
        else Inl IndexError)"
proof (induction timestamps i durations rule: durations_loop.induct)
  case (1 timestamps i durations)
  show ?case
  proof (cases "i < length timestamps")
    case False
    with "1.prems" have "i = length timestamps" by simp
    with "1.prems" show ?thesis
      by (simp add: durations_loop.simps [of timestamps "length timestamps"])
  next
    case inside: True
    show ?thesis
    proof (cases "i + 1 < length timestamps")
      case False
      with inside have "length timestamps = i + 1" by simp
      with "1.prems" show ?thesis
        by (simp add: durations_loop.simps [of timestamps i])
    next
      case True
      from "1.prems" obtain j where j: "i = 2 * j" by (auto elim: evenE)
      from True j have lt: "j < length timestamps div 2" by linarith
      have range: "[i div 2..<length timestamps div 2]
          = j # [(i + 2) div 2..<length timestamps div 2]"
        using lt j by (simp add: upt_conv_Cons)
      have step: "durations_loop timestamps i durations
          = durations_loop timestamps (i + 2)
              (durations @ [timestamps ! (i + 1) - timestamps ! i])"
        using inside True by (simp add: durations_loop.simps [of timestamps i])
      have "even (i + 2)" and "i + 2 \<le> length timestamps"
        using "1.prems" True by simp_all
      from "1.IH" [OF inside True this] step range j show ?thesis
        by simp
    qed
  qed
qed

lemma durations_loop_paired:
  "durations_loop timestamps 0 durations =
     (if even (length timestamps) then Inr (durations @ paired_samples timestamps)
      else Inl IndexError)"
  using durations_loop_even [of 0 timestamps durations] by (simp add: paired_samples_def)

lemma present_arrays_Cons:
  "present_arrays times_key (t # rest) =
     (case t times_key of None \<Rightarrow> [] | Some a \<Rightarrow> [a]) @ present_arrays times_key rest"
  by (simp add: present_arrays_def)

lemma present_arrays_Nil: "present_arrays times_key [] = []"
  by (simp add: present_arrays_def)

lemma collect_durations_samples:
  "collect_durations times_key ts durations =
     (if list_all (\<lambda>a. even (length a)) (present_arrays times_key ts)
      then Inr (durations @ all_samples times_key ts)
      else Inl IndexError)"
proof (induction ts arbitrary: durations)
  case Nil
  show ?case by (simp add: all_samples_def present_arrays_Nil)
next
  case (Cons t rest)
  show ?case
  proof (cases "t times_key")
    case None
    with Cons show ?thesis
      by (simp add: all_samples_def present_arrays_Cons)
  next
    case (Some a)
    with Cons show ?thesis
      by (simp add: all_samples_def present_arrays_Cons durations_loop_paired)
  qed
qed

lemma py_min_Min: "ds \<noteq> [] \<Longrightarrow> py_min ds = Inr (Min (set ds))"
proof (cases ds)
  case Nil
  assume "ds \<noteq> []"
  with Nil show ?thesis by simp
next
  case (Cons x xs)
  have "Min (set (x # xs)) = fold min xs x" by (rule Min.set_eq_fold)
  with Cons show ?thesis by simp
qed

lemma py_max_Max: "ds \<noteq> [] \<Longrightarrow> py_max ds = Inr (Max (set ds))"
proof (cases ds)
  case Nil
  assume "ds \<noteq> []"
  with Nil show ?thesis by simp
next
  case (Cons x xs)
  have "Max (set (x # xs)) = fold max xs x" by (rule Max.set_eq_fold)
  with Cons show ?thesis by simp
qed

lemma plugin_summary_values_cases:
  "plugin_summary_values plugin times_key =
     (case parsed_times plugin of
        None \<Rightarrow> Inl (KeyError (JStr ''times''))
      | Some ts \<Rightarrow>
          if \<not> list_all (\<lambda>a. even (length a)) (present_arrays times_key ts)
          then Inl IndexError
          else if all_samples times_key ts = [] then Inl ValueError
          else Inr [Min (set (all_samples times_key ts)) * 1000,
                    Max (set (all_samples times_key ts)) * 1000,
                    sum_list (all_samples times_key ts)
                      / of_nat (length (all_samples times_key ts)) * 1000])"
proof (cases "parsed_times plugin")
  case None
  then show ?thesis by (simp add: plugin_summary_values_def)
next
  case (Some ts)
  show ?thesis
  proof (cases "list_all (\<lambda>a. even (length a)) (present_arrays times_key ts)")
    case False
    with Some show ?thesis
      by (simp add: plugin_summary_values_def collect_durations_samples)
  next
    case True
    show ?thesis
    proof (cases "all_samples times_key ts = []")
      case empty: True
      with Some True show ?thesis
        by (simp add: plugin_summary_values_def collect_durations_samples)
    next
      case False
      with Some True show ?thesis
        by (simp add: plugin_summary_values_def collect_durations_samples py_min_Min
            py_max_Max numpy_mean_def)
    qed
  qed
qed

lemma paired_samples_length: "length (paired_samples a) = length a div 2"
  by (simp add: paired_samples_def)




lemma well_paired_samples:
  assumes "present_arrays times_key ts \<noteq> []" and "well_paired times_key ts"
  shows "list_all (\<lambda>a. even (length a)) (present_arrays times_key ts)"
    and "all_samples times_key ts \<noteq> []"
proof -
  from assms(2) have all: "\<forall>a \<in> set (present_arrays times_key ts). a \<noteq> [] \<and> even (length a)"
    by (simp add: well_paired_def list_all_iff)
  then show "list_all (\<lambda>a. even (length a)) (present_arrays times_key ts)"
    by (simp add: list_all_iff)
  from assms(1) obtain a where a: "a \<in> set (present_arrays times_key ts)"
    by (cases "present_arrays times_key ts") auto
  with all have "a \<noteq> []" and "even (length a)" by simp_all
  then have "length a \<noteq> 0" and "even (length a)" by simp_all
  then have "2 \<le> length a" by presburger
  then have "paired_samples a \<noteq> []"
    using paired_samples_length [of a] by (cases "paired_samples a") simp_all
  with a show "all_samples times_key ts \<noteq> []"
    by (auto simp: all_samples_def)
qed

text \<open>
  Claim C8, as amended. On a record that has \<^verbatim>\<open>times\<close>, \<open>plugin_summary_values\<close> raises
  IndexError when the array under the times key of some entry has odd length, and
  ValueError when no entry has the times key. When at least one entry has the key, and
  every array under it is non-empty and of even length, it returns a triplet.
\<close>

theorem C8_summary_values_partial:
  assumes "parsed_times plugin = Some ts"
  shows "((\<exists>a \<in> set (present_arrays times_key ts). odd (length a)) \<longrightarrow>
            plugin_summary_values plugin times_key = Inl IndexError)
       \<and> (present_arrays times_key ts = [] \<longrightarrow>
            plugin_summary_values plugin times_key = Inl ValueError)
       \<and> (present_arrays times_key ts \<noteq> [] \<and> well_paired times_key ts \<longrightarrow>
            (\<exists>minimum maximum average.
               plugin_summary_values plugin times_key = Inr [minimum, maximum, average]))"
proof (intro conjI impI)
  assume "\<exists>a \<in> set (present_arrays times_key ts). odd (length a)"
  then have "\<not> list_all (\<lambda>a. even (length a)) (present_arrays times_key ts)"
    by (simp add: list_all_iff)
  with assms show "plugin_summary_values plugin times_key = Inl IndexError"
    by (simp add: plugin_summary_values_cases)
next
  assume "present_arrays times_key ts = []"
  with assms show "plugin_summary_values plugin times_key = Inl ValueError"
    by (simp add: plugin_summary_values_cases all_samples_def)
next
  assume "present_arrays times_key ts \<noteq> [] \<and> well_paired times_key ts"
  then have "list_all (\<lambda>a. even (length a)) (present_arrays times_key ts)"
    and "all_samples times_key ts \<noteq> []"
    by (simp_all add: well_paired_samples)
  with assms show "\<exists>minimum maximum average.
      plugin_summary_values plugin times_key = Inr [minimum, maximum, average]"
    by (simp add: plugin_summary_values_cases)
qed

text \<open>
  With no entry holding the key, every present array is non-empty and of even length, and
  the call still raises ValueError.
\<close>

theorem C8_vacuous_precondition_counterexample:
  "well_paired ''execute_times'' [Map.empty, Map.empty]
   \<and> plugin_summary_values
         \<lparr>parsed_label = Some (JStr ''5''), parsed_scenario_name = Some ''s'',
          parsed_times = Some [Map.empty, Map.empty]\<rparr> ''execute_times''
       = Inl ValueError"
  by code_simp

text \<open>
  The theorem on an array of three timestamps, on a record without the key, and on an
  array of two timestamps.
\<close>

theorem C8_summary_values_partial_witness:
  "plugin_summary_values
      \<lparr>parsed_label = None, parsed_scenario_name = None,
       parsed_times = Some [Map.empty, [''execute_times'' \<mapsto> [1, 2, 3]]]\<rparr> ''execute_times''
     = Inl IndexError
   \<and> plugin_summary_values
      \<lparr>parsed_label = None, parsed_scenario_name = None,
       parsed_times = Some [Map.empty, [''cpu_times'' \<mapsto> [1, 2]]]\<rparr> ''execute_times''
     = Inl ValueError
   \<and> plugin_summary_values
      \<lparr>parsed_label = None, parsed_scenario_name = None,
       parsed_times = Some [Map.empty, [''execute_times'' \<mapsto> [1, 2]]]\<rparr> ''execute_times''
     \<noteq> Inl ValueError"
proof -
  let ?odd = "[Map.empty, [''execute_times'' \<mapsto> [1, 2, 3 :: rat]]]"
  let ?none = "[Map.empty, [''cpu_times'' \<mapsto> [1, 2 :: rat]]]"
  let ?good = "[Map.empty, [''execute_times'' \<mapsto> [1, 2 :: rat]]]"
  have o: "\<exists>a \<in> set (present_arrays ''execute_times'' ?odd). odd (length a)"
    by (simp add: present_arrays_def)
  have n: "present_arrays ''execute_times'' ?none = []"
    by (simp add: present_arrays_def)
  have g: "present_arrays ''execute_times'' ?good \<noteq> [] \<and> well_paired ''execute_times'' ?good"
    by (simp add: present_arrays_def well_paired_def)
  have 1: "plugin_summary_values \<lparr>parsed_label = None, parsed_scenario_name = None,
       parsed_times = Some ?odd\<rparr> ''execute_times'' = Inl IndexError"
    using C8_summary_values_partial [of "\<lparr>parsed_label = None, parsed_scenario_name = None,
       parsed_times = Some ?odd\<rparr>" ?odd "''execute_times''"] o by simp
  have 2: "plugin_summary_values \<lparr>parsed_label = None, parsed_scenario_name = None,
       parsed_times = Some ?none\<rparr> ''execute_times'' = Inl ValueError"
    using C8_summary_values_partial [of "\<lparr>parsed_label = None, parsed_scenario_name = None,
       parsed_times = Some ?none\<rparr>" ?none "''execute_times''"] n by simp
  have 3: "plugin_summary_values \<lparr>parsed_label = None, parsed_scenario_name = None,
       parsed_times = Some ?good\<rparr> ''execute_times'' \<noteq> Inl ValueError"
    using C8_summary_values_partial [of "\<lparr>parsed_label = None, parsed_scenario_name = None,
       parsed_times = Some ?good\<rparr>" ?good "''execute_times''"] g by auto
  from 1 2 3 show ?thesis by simp
qed

subsection \<open>The accumulation over the files\<close>

lemma map_fst_dict_set:
  "map fst (dict_set k v kvs) = (if k \<in> set (map fst kvs) then map fst kvs else map fst kvs @ [k])"
  by (induction kvs) (force simp: image_iff)+

lemma distinct_dict_set: "distinct (map fst kvs) \<Longrightarrow> distinct (map fst (dict_set k v kvs))"
  by (simp add: map_fst_dict_set)

lemma set_dict_set: "set (dict_set k v kvs) \<subseteq> insert (k, v) (set kvs)"
  by (induction kvs) (auto split: if_splits)

lemma triplet_at_store:
  "triplet_at (store name x sv scenarios) name' x' =
     (if name' = name \<and> x' = x then Some sv else triplet_at scenarios name' x')"
  by (auto simp: triplet_at_def store_def Let_def map_of_dict_set split: option.splits)

lemma unique_keys_dict_set:
  "unique_keys scenarios \<Longrightarrow> distinct (map fst scenario) \<Longrightarrow>
     unique_keys (dict_set name scenario scenarios)"
  unfolding unique_keys_def list_all_iff
  using set_dict_set [of name scenario scenarios] by (auto simp: distinct_dict_set)

lemma unique_keys_lookup:
  "unique_keys scenarios \<Longrightarrow> map_of scenarios name = Some scenario \<Longrightarrow>
     distinct (map fst scenario)"
  unfolding unique_keys_def list_all_iff by (auto dest: map_of_SomeD)

lemma unique_keys_store:
  assumes "unique_keys scenarios"
  shows "unique_keys (store name x sv scenarios)"
proof (cases "map_of scenarios name")
  case None
  have "unique_keys (dict_set name [] scenarios)"
    using assms by (rule unique_keys_dict_set) simp
  then have "unique_keys (dict_set name (dict_set x sv []) (dict_set name [] scenarios))"
    by (rule unique_keys_dict_set) simp
  with None show ?thesis
    by (simp add: store_def Let_def map_of_dict_set)
next
  case (Some scenario)
  with assms have "distinct (map fst scenario)" by (rule unique_keys_lookup)
  then have "distinct (map fst (dict_set x sv scenario))" by (rule distinct_dict_set)
  with assms have "unique_keys (dict_set name (dict_set x sv scenario) scenarios)"
    by (rule unique_keys_dict_set)
  with Some show ?thesis
    by (simp add: store_def Let_def)
qed

lemma unique_entry:
  "distinct (map fst kvs) \<Longrightarrow> map_of kvs k = Some v \<Longrightarrow>
     filter (\<lambda>kv. fst kv = k) kvs = [(k, v)]"
proof (induction kvs)
  case Nil
  then show ?case by simp
next
  case (Cons kv kvs)
  show ?case
  proof (cases "fst kv = k")
    case True
    with Cons.prems have "kv = (k, v)" by (cases kv) simp
    moreover from True Cons.prems have "k \<notin> fst ` set kvs" by simp
    then have "filter (\<lambda>kv. fst kv = k) kvs = []"
      by (force simp: filter_empty_conv image_iff)
    ultimately show ?thesis by simp
  next
    case False
    with Cons show ?thesis by (cases kv) auto
  qed
qed

lemma say_all_scenarios [simp]: "all_scenarios (say line st) = all_scenarios st"
  by (simp add: say_def)

text \<open>What a pass through the loop body does to \<^verbatim>\<open>all_scenarios\<close>.\<close>

lemma show_plots_body_effect:
  assumes "show_plots_body load float_str times_key n_files counter name st = Inr st'"
  shows "all_scenarios st' = all_scenarios st
       \<or> (\<exists>p label ts x sv scenario.
             load name = Inr p \<and> parsed_label p = Some label \<and> parsed_times p = Some ts
           \<and> 2 \<le> length ts \<and> convert_to_float float_str label = Some x
           \<and> plugin_summary_values p times_key = Inr sv
           \<and> parsed_scenario_name p = Some scenario
           \<and> all_scenarios st' = store scenario x sv (all_scenarios st))"
  using assms unfolding show_plots_body_def Let_def
  by (auto split: sum.splits option.splits if_splits)

lemma show_plots_body_stores:
  assumes "load name = Inr p" and "parsed_label p = Some label" and "parsed_times p = Some ts"
    and "2 \<le> length ts" and "convert_to_float float_str label = Some x"
    and "plugin_summary_values p times_key = Inr sv" and "parsed_scenario_name p = Some scenario"
  shows "show_plots_body load float_str times_key n_files counter name st =
     Inr ((say (''Parsing file '' @ str counter @ '' / '' @ str (int n_files) @ '': '' @ name) st)
            \<lparr>all_scenarios := store scenario x sv (all_scenarios st)\<rparr>)"
  using assms unfolding show_plots_body_def Let_def by simp

lemma show_plots_loop_append:
  "show_plots_loop load float_str times_key n_files counter (xs @ ys) st =
     (case show_plots_loop load float_str times_key n_files counter xs st of
        Inl e \<Rightarrow> Inl e
      | Inr st1 \<Rightarrow>
          show_plots_loop load float_str times_key n_files (counter + int (length xs)) ys st1)"
proof (induction xs arbitrary: counter st)
  case Nil
  show ?case by simp
next
  case (Cons x xs)
  show ?case
  proof (cases "show_plots_body load float_str times_key n_files counter x st")
    case (Inl e)
    then show ?thesis by simp
  next
    case (Inr st1)
    have c: "counter + int (length (x # xs)) = counter + 1 + int (length xs)" by simp
    show ?thesis
      unfolding c using Inr Cons.IH [of "counter + 1" st1] by simp
  qed
qed

lemma show_plots_loop_unique:
  "show_plots_loop load float_str times_key n_files counter names st = Inr st' \<Longrightarrow>
     unique_keys (all_scenarios st) \<Longrightarrow> unique_keys (all_scenarios st')"
proof (induction names arbitrary: counter st)
  case Nil
  then show ?case by simp
next
  case (Cons name names)
  from Cons.prems(1) obtain st1 where
    b: "show_plots_body load float_str times_key n_files counter name st = Inr st1"
    and l: "show_plots_loop load float_str times_key n_files (counter + 1) names st1 = Inr st'"
    by (auto split: sum.splits)
  from show_plots_body_effect [OF b] Cons.prems(2) have "unique_keys (all_scenarios st1)"
    by (auto simp: unique_keys_store)
  with l show ?case by (rule Cons.IH)
qed

lemma show_plots_loop_keeps:
  assumes "show_plots_loop load float_str times_key n_files counter names st = Inr st'"
    and "\<forall>m \<in> set names. \<forall>q label ts.
           load m = Inr q \<and> parsed_label q = Some label \<and> parsed_times q = Some ts
           \<and> 2 \<le> length ts \<and> convert_to_float float_str label = Some x
           \<longrightarrow> parsed_scenario_name q \<noteq> Some scenario"
  shows "triplet_at (all_scenarios st') scenario x = triplet_at (all_scenarios st) scenario x"
  using assms
proof (induction names arbitrary: counter st)
  case Nil
  then show ?case by simp
next
  case (Cons name names)
  from Cons.prems(1) obtain st1 where
    b: "show_plots_body load float_str times_key n_files counter name st = Inr st1"
    and l: "show_plots_loop load float_str times_key n_files (counter + 1) names st1 = Inr st'"
    by (auto split: sum.splits)
  have "triplet_at (all_scenarios st1) scenario x = triplet_at (all_scenarios st) scenario x"
    using show_plots_body_effect [OF b]
  proof
    assume "all_scenarios st1 = all_scenarios st"
    then show ?thesis by simp
  next
    assume "\<exists>p label ts x' sv scenario'.
             load name = Inr p \<and> parsed_label p = Some label \<and> parsed_times p = Some ts
           \<and> 2 \<le> length ts \<and> convert_to_float float_str label = Some x'
           \<and> plugin_summary_values p times_key = Inr sv
           \<and> parsed_scenario_name p = Some scenario'
           \<and> all_scenarios st1 = store scenario' x' sv (all_scenarios st)"
    then obtain p label ts x' sv scenario' where
      p: "load name = Inr p" "parsed_label p = Some label" "parsed_times p = Some ts"
         "2 \<le> length ts" "convert_to_float float_str label = Some x'"
         "parsed_scenario_name p = Some scenario'"
      and s: "all_scenarios st1 = store scenario' x' sv (all_scenarios st)"
      by blast
    have "\<not> (scenario = scenario' \<and> x = x')"
    proof
      assume "scenario = scenario' \<and> x = x'"
      with p Cons.prems(2) show False by auto
    qed
    with s show ?thesis by (auto simp: triplet_at_store)
  qed
  moreover from Cons.prems(2) have "\<forall>m \<in> set names. \<forall>q label ts.
           load m = Inr q \<and> parsed_label q = Some label \<and> parsed_times q = Some ts
           \<and> 2 \<le> length ts \<and> convert_to_float float_str label = Some x
           \<longrightarrow> parsed_scenario_name q \<noteq> Some scenario"
    by simp
  ultimately show ?case
    using Cons.IH [OF l] by simp
qed

text \<open>
  Claim C4, as amended. For a file that loads, the loop body
  \<^item> skips it with the message \<^verbatim>\<open>no "label" field in file.\<close> when it has no label;
  \<^item> skips it with \<^verbatim>\<open>no recorded times in file.\<close> when it has a label and its
    \<^verbatim>\<open>times\<close> list has fewer than two entries;
  \<^item> skips it with \<^verbatim>\<open>label isn't a number.\<close> when the list has two entries or more and
    the label does not convert to a float;
  \<^item> stores the triplet of \<open>plugin_summary_values\<close> under the scenario name and the
    converted label when that call returns and the file has a scenario name;
  \<^item> raises in every other case: a label but no \<^verbatim>\<open>times\<close>, a failing
    \<open>plugin_summary_values\<close>, no scenario name.
  A skip leaves \<^verbatim>\<open>all_scenarios\<close> as it was.
\<close>

theorem C4_skip_or_contribute:
  assumes "load name = Inr p"
    and "st1 = say (''Parsing file '' @ str counter @ '' / '' @ str (int n_files) @ '': '' @
                    name) st"
  shows "(parsed_label p = None \<longrightarrow>
            show_plots_body load float_str times_key n_files counter name st
              = Inr (say (''Skipping '' @ name @ '': no '' @ [CHR 0x22] @ ''label'' @
                          [CHR 0x22] @ '' field in file.'') st1))
       \<and> (\<forall>label ts. parsed_label p = Some label \<and> parsed_times p = Some ts \<and> length ts < 2 \<longrightarrow>
            show_plots_body load float_str times_key n_files counter name st
              = Inr (say (''Skipping '' @ name @ '': no recorded times in file.'') st1))
       \<and> (\<forall>label ts. parsed_label p = Some label \<and> parsed_times p = Some ts \<and> 2 \<le> length ts
              \<and> convert_to_float float_str label = None \<longrightarrow>
            show_plots_body load float_str times_key n_files counter name st
              = Inr (say (''Skipping '' @ name @ '': label isn'' @ [CHR 0x27] @
                          ''t a number.'') st1))
       \<and> (\<forall>label ts x sv scenario.
              parsed_label p = Some label \<and> parsed_times p = Some ts \<and> 2 \<le> length ts
              \<and> convert_to_float float_str label = Some x
              \<and> plugin_summary_values p times_key = Inr sv
              \<and> parsed_scenario_name p = Some scenario \<longrightarrow>
            show_plots_body load float_str times_key n_files counter name st
              = Inr (st1\<lparr>all_scenarios := store scenario x sv (all_scenarios st)\<rparr>)
            \<and> triplet_at (store scenario x sv (all_scenarios st)) scenario x = Some sv
            \<and> length sv = 3)
       \<and> (\<forall>label ts x. parsed_label p = Some label
              \<and> (parsed_times p = None
                 \<or> parsed_times p = Some ts \<and> 2 \<le> length ts
                    \<and> convert_to_float float_str label = Some x
                    \<and> (isl (plugin_summary_values p times_key)
                       \<or> parsed_scenario_name p = None)) \<longrightarrow>
            isl (show_plots_body load float_str times_key n_files counter name st))
       \<and> (\<forall>line. all_scenarios (say line st1) = all_scenarios st)"
proof (intro conjI allI impI)
  assume "parsed_label p = None"
  with assms show "show_plots_body load float_str times_key n_files counter name st
      = Inr (say (''Skipping '' @ name @ '': no '' @ [CHR 0x22] @ ''label'' @
                  [CHR 0x22] @ '' field in file.'') st1)"
    by (simp add: show_plots_body_def Let_def)
next
  fix label ts
  assume "parsed_label p = Some label \<and> parsed_times p = Some ts \<and> length ts < 2"
  with assms show "show_plots_body load float_str times_key n_files counter name st
      = Inr (say (''Skipping '' @ name @ '': no recorded times in file.'') st1)"
    by (simp add: show_plots_body_def Let_def)
next
  fix label ts
  assume "parsed_label p = Some label \<and> parsed_times p = Some ts \<and> 2 \<le> length ts
              \<and> convert_to_float float_str label = None"
  with assms show "show_plots_body load float_str times_key n_files counter name st
      = Inr (say (''Skipping '' @ name @ '': label isn'' @ [CHR 0x27] @ ''t a number.'') st1)"
    by (simp add: show_plots_body_def Let_def)
next
  fix label ts x sv scenario
  assume a: "parsed_label p = Some label \<and> parsed_times p = Some ts \<and> 2 \<le> length ts
              \<and> convert_to_float float_str label = Some x
              \<and> plugin_summary_values p times_key = Inr sv
              \<and> parsed_scenario_name p = Some scenario"
  with assms show "show_plots_body load float_str times_key n_files counter name st
              = Inr (st1\<lparr>all_scenarios := store scenario x sv (all_scenarios st)\<rparr>)"
    by (simp add: show_plots_body_def Let_def)
  show "triplet_at (store scenario x sv (all_scenarios st)) scenario x = Some sv"
    by (simp add: triplet_at_store)
  from a show "length sv = 3"
    by (auto simp: plugin_summary_values_cases split: option.splits if_splits)
next
  fix label ts x
  assume "parsed_label p = Some label
              \<and> (parsed_times p = None
                 \<or> parsed_times p = Some ts \<and> 2 \<le> length ts
                    \<and> convert_to_float float_str label = Some x
                    \<and> (isl (plugin_summary_values p times_key)
                       \<or> parsed_scenario_name p = None))"
  with assms show "isl (show_plots_body load float_str times_key n_files counter name st)"
    by (auto simp: show_plots_body_def Let_def split: sum.splits)
next
  fix line
  from assms(2) show "all_scenarios (say line st1) = all_scenarios st"
    by simp
qed

text \<open>
  A file with a label that is a number and two recorded timestamps, in a single entry of
  \<^verbatim>\<open>times\<close>, is skipped; a file with a label and two entries without a timestamp is not
  skipped: the call raises ValueError.
\<close>

theorem C4_skip_conditions_counterexample:
  "parsed_label
      \<lparr>parsed_label = Some (JStr ''5''), parsed_scenario_name = Some ''s'',
       parsed_times = Some [[''execute_times'' \<mapsto> [1, 1002 / 1000]]]\<rparr> = Some (JStr ''5'')
   \<and> recorded_timestamps ''execute_times''
      \<lparr>parsed_label = Some (JStr ''5''), parsed_scenario_name = Some ''s'',
       parsed_times = Some [[''execute_times'' \<mapsto> [1, 1002 / 1000]]]\<rparr> = 2
   \<and> convert_to_float (\<lambda>s. if s = ''5'' then Some 5 else None) (JStr ''5'') = Some 5
   \<and> show_plots_body
        (\<lambda>n. Inr \<lparr>parsed_label = Some (JStr ''5''), parsed_scenario_name = Some ''s'',
                   parsed_times = Some [[''execute_times'' \<mapsto> [1, 1002 / 1000]]]\<rparr>)
        (\<lambda>s. if s = ''5'' then Some 5 else None) ''execute_times'' 1 1 ''x.json''
        \<lparr>all_scenarios = [], messages = []\<rparr>
      = Inr \<lparr>all_scenarios = [],
             messages = [''Parsing file 1 / 1: x.json'',
                         ''Skipping x.json: no recorded times in file.'']\<rparr>
   \<and> recorded_timestamps ''execute_times''
      \<lparr>parsed_label = Some (JStr ''5''), parsed_scenario_name = Some ''s'',
       parsed_times = Some [Map.empty, Map.empty]\<rparr> = 0
   \<and> show_plots_body
        (\<lambda>n. Inr \<lparr>parsed_label = Some (JStr ''5''), parsed_scenario_name = Some ''s'',
                   parsed_times = Some [Map.empty, Map.empty]\<rparr>)
        (\<lambda>s. if s = ''5'' then Some 5 else None) ''execute_times'' 1 1 ''y.json''
        \<lparr>all_scenarios = [], messages = []\<rparr>
      = Inl ValueError"
  by code_simp

text \<open>
  The theorem on a file that is stored and on a file without a label.
\<close>

theorem C4_skip_or_contribute_witness:
  "show_plots_body
        (\<lambda>n. Inr \<lparr>parsed_label = Some (JStr ''5''), parsed_scenario_name = Some ''s'',
                   parsed_times = Some [Map.empty, [''execute_times'' \<mapsto> [1, 1002 / 1000]]]\<rparr>)
        (\<lambda>s. if s = ''5'' then Some 5 else None) ''execute_times'' 1 1 ''a.json''
        \<lparr>all_scenarios = [], messages = []\<rparr>
      = Inr \<lparr>all_scenarios = [(''s'', [(5, [2, 2, 2])])],
             messages = [''Parsing file 1 / 1: a.json'']\<rparr>
   \<and> show_plots_body
        (\<lambda>n. Inr \<lparr>parsed_label = None, parsed_scenario_name = Some ''s'',
                   parsed_times = Some [Map.empty, [''execute_times'' \<mapsto> [1, 1002 / 1000]]]\<rparr>)
        (\<lambda>s. if s = ''5'' then Some 5 else None) ''execute_times'' 1 1 ''n.json''
        \<lparr>all_scenarios = [], messages = []\<rparr>
      = Inr \<lparr>all_scenarios = [],
             messages = [''Parsing file 1 / 1: n.json'',
                         ''Skipping n.json: no '' @ [CHR 0x22] @ ''label'' @ [CHR 0x22] @
                         '' field in file.'']\<rparr>"
proof -
  let ?A = "\<lparr>parsed_label = Some (JStr ''5''), parsed_scenario_name = Some ''s'',
              parsed_times = Some [Map.empty, [''execute_times'' \<mapsto> [1, 1002 / 1000 :: rat]]]\<rparr>"
  let ?N = "\<lparr>parsed_label = None, parsed_scenario_name = Some ''s'',
              parsed_times = Some [Map.empty, [''execute_times'' \<mapsto> [1, 1002 / 1000 :: rat]]]\<rparr>"
  let ?fl = "\<lambda>s. if s = ''5'' then Some (5 :: rat) else None"
  let ?st0 = "\<lparr>all_scenarios = [], messages = []\<rparr>"
  have pa: "say (''Parsing file '' @ str 1 @ '' / '' @ str (int 1) @ '': '' @ ''a.json'') ?st0
      = \<lparr>all_scenarios = [], messages = [''Parsing file 1 / 1: a.json'']\<rparr>"
    by code_simp
  have pn: "say (''Parsing file '' @ str 1 @ '' / '' @ str (int 1) @ '': '' @ ''n.json'') ?st0
      = \<lparr>all_scenarios = [], messages = [''Parsing file 1 / 1: n.json'']\<rparr>"
    by code_simp
  have sv: "plugin_summary_values ?A ''execute_times'' = Inr [2, 2, 2]" by code_simp
  have st: "store ''s'' 5 [2, 2, 2] [] = [(''s'', [(5, [2, 2, 2 :: rat])])]" by code_simp
  note a = C4_skip_or_contribute [where load = "\<lambda>n. Inr ?A" and p = ?A and name = "''a.json''"
      and counter = 1 and n_files = 1 and st = ?st0 and float_str = ?fl
      and times_key = "''execute_times''", OF refl pa [symmetric]]
  note n = C4_skip_or_contribute [where load = "\<lambda>n. Inr ?N" and p = ?N and name = "''n.json''"
      and counter = 1 and n_files = 1 and st = ?st0 and float_str = ?fl
      and times_key = "''execute_times''", OF refl pn [symmetric]]
  from a have "parsed_label ?A = Some (JStr ''5'')
        \<and> parsed_times ?A = Some [Map.empty, [''execute_times'' \<mapsto> [1, 1002 / 1000]]]
        \<and> 2 \<le> length [Map.empty, [''execute_times'' \<mapsto> [1, 1002 / 1000 :: rat]]]
        \<and> convert_to_float ?fl (JStr ''5'') = Some 5
        \<and> plugin_summary_values ?A ''execute_times'' = Inr [2, 2, 2]
        \<and> parsed_scenario_name ?A = Some ''s'' \<longrightarrow>
      show_plots_body (\<lambda>n. Inr ?A) ?fl ''execute_times'' 1 1 ''a.json'' ?st0
        = Inr (\<lparr>all_scenarios = [], messages = [''Parsing file 1 / 1: a.json'']\<rparr>
                 \<lparr>all_scenarios := store ''s'' 5 [2, 2, 2] (all_scenarios ?st0)\<rparr>)"
    by blast
  with sv st have 1: "show_plots_body (\<lambda>n. Inr ?A) ?fl ''execute_times'' 1 1 ''a.json'' ?st0
      = Inr \<lparr>all_scenarios = [(''s'', [(5, [2, 2, 2])])],
             messages = [''Parsing file 1 / 1: a.json'']\<rparr>"
    by simp
  from n have "parsed_label ?N = None \<longrightarrow>
      show_plots_body (\<lambda>n. Inr ?N) ?fl ''execute_times'' 1 1 ''n.json'' ?st0
        = Inr (say (''Skipping '' @ ''n.json'' @ '': no '' @ [CHR 0x22] @ ''label'' @
                    [CHR 0x22] @ '' field in file.'')
                 \<lparr>all_scenarios = [], messages = [''Parsing file 1 / 1: n.json'']\<rparr>)"
    by blast
  then have 2: "show_plots_body (\<lambda>n. Inr ?N) ?fl ''execute_times'' 1 1 ''n.json'' ?st0
      = Inr \<lparr>all_scenarios = [],
             messages = [''Parsing file 1 / 1: n.json'',
                         ''Skipping n.json: no '' @ [CHR 0x22] @ ''label'' @ [CHR 0x22] @
                         '' field in file.'']\<rparr>"
    by (simp add: say_def)
  from 1 2 show ?thesis by simp
qed

text \<open>
  Claim C10. Take a run of \<open>show_plots\<close> over a list of files that comes to its end, and in
  the list a file that stores a triplet under a scenario name and a label, such that no
  file after it stores under the same name and label. Then \<^verbatim>\<open>all_scenarios\<close> holds that
  file's triplet there and no other: the name has one entry, and in it the label has one
  entry. What files before it stored under the same name and label is gone.
\<close>

theorem C10_last_file_wins:
  assumes "show_plots load float_str (earlier @ [name] @ later) times_key = Inr st'"
    and "load name = Inr p" and "parsed_label p = Some label" and "parsed_times p = Some ts"
    and "2 \<le> length ts" and "convert_to_float float_str label = Some x"
    and "plugin_summary_values p times_key = Inr sv" and "parsed_scenario_name p = Some scenario"
    and "\<forall>m \<in> set later. \<forall>q label ts.
           load m = Inr q \<and> parsed_label q = Some label \<and> parsed_times q = Some ts
           \<and> 2 \<le> length ts \<and> convert_to_float float_str label = Some x
           \<longrightarrow> parsed_scenario_name q \<noteq> Some scenario"
  shows "triplet_at (all_scenarios st') scenario x = Some sv
       \<and> (\<exists>points. filter (\<lambda>kv. fst kv = scenario) (all_scenarios st') = [(scenario, points)]
             \<and> filter (\<lambda>kv. fst kv = x) points = [(x, sv)])"
proof -
  let ?n = "length (earlier @ [name] @ later)"
  let ?st0 = "\<lparr>all_scenarios = [], messages = []\<rparr>"
  from assms(1) have run: "show_plots_loop load float_str times_key ?n 1
      (earlier @ [name] @ later) ?st0 = Inr st'"
    by (simp add: show_plots_def)
  then obtain st1 where
    r1: "show_plots_loop load float_str times_key ?n 1 earlier ?st0 = Inr st1"
    and r2: "show_plots_loop load float_str times_key ?n (1 + int (length earlier))
        ([name] @ later) st1 = Inr st'"
    unfolding show_plots_loop_append [of _ _ _ _ _ earlier] by (auto split: sum.splits)
  let ?c = "1 + int (length earlier)"
  from r2 obtain st2 where
    b: "show_plots_body load float_str times_key ?n ?c name st1 = Inr st2"
    and r3: "show_plots_loop load float_str times_key ?n (?c + 1) later st2 = Inr st'"
    by (auto split: sum.splits)
  from b have "all_scenarios st2 = store scenario x sv (all_scenarios st1)"
    using show_plots_body_stores [where load = load and name = name and float_str = float_str
        and times_key = times_key and n_files = ?n and counter = ?c and st = st1,
        OF assms(2-8)]
    by auto
  then have "triplet_at (all_scenarios st2) scenario x = Some sv"
    by (simp add: triplet_at_store)
  with show_plots_loop_keeps [OF r3 assms(9)]
  have at: "triplet_at (all_scenarios st') scenario x = Some sv"
    by simp
  have "unique_keys (all_scenarios ?st0)"
    by (simp add: unique_keys_def)
  with run have u: "unique_keys (all_scenarios st')"
    by (rule show_plots_loop_unique)
  from at obtain points where
    m: "map_of (all_scenarios st') scenario = Some points" and v: "map_of points x = Some sv"
    by (auto simp: triplet_at_def split: option.splits)
  from u have "distinct (map fst (all_scenarios st'))"
    by (simp add: unique_keys_def)
  then have 1: "filter (\<lambda>kv. fst kv = scenario) (all_scenarios st') = [(scenario, points)]"
    using m by (rule unique_entry)
  from u m have "distinct (map fst points)"
    by (rule unique_keys_lookup)
  then have 2: "filter (\<lambda>kv. fst kv = x) points = [(x, sv)]"
    using v by (rule unique_entry)
  from at 1 2 show ?thesis by blast
qed

text \<open>
  The theorem on three files of one scenario: two with the label 5, then one with the
  label 6. The series drawn has the second file's values at 5.
\<close>

theorem C10_last_file_wins_witness:
  "map_sum id all_scenarios
     (show_plots
        (\<lambda>n. case map_of
                [(''a.json'', \<lparr>parsed_label = Some (JStr ''5''), parsed_scenario_name = Some ''s'',
                    parsed_times = Some [Map.empty, [''execute_times'' \<mapsto> [1, 1002 / 1000]]]\<rparr>),
                 (''b.json'', \<lparr>parsed_label = Some (JStr ''5''), parsed_scenario_name = Some ''s'',
                    parsed_times = Some [Map.empty, [''execute_times'' \<mapsto> [1, 1004 / 1000]]]\<rparr>),
                 (''c.json'', \<lparr>parsed_label = Some (JStr ''6''), parsed_scenario_name = Some ''s'',
                    parsed_times = Some [Map.empty, [''execute_times'' \<mapsto> [2, 2003 / 1000]]]\<rparr>)]
                n of
              None \<Rightarrow> Inl (OSError n) | Some p \<Rightarrow> Inr p)
        (\<lambda>s. if s = ''5'' then Some 5 else if s = ''6'' then Some 6 else None)
        [''a.json'', ''b.json'', ''c.json''] ''execute_times'')
     = Inr [(''s'', [(5, [4, 4, 4]), (6, [3, 3, 3])])]
   \<and> triplet_at [(''s'', [(5, [4, 4, 4]), (6, [3, 3, 3])])] ''s'' 5 = Some [4, 4, 4]
   \<and> scenario_to_distribution [(5, [4, 4, 4]), (6, [3, 3, 3])]
       = [[5, 6], [4, 3], [4, 3], [4, 3]]"
proof -
  let ?A = "\<lparr>parsed_label = Some (JStr ''5''), parsed_scenario_name = Some ''s'',
              parsed_times = Some [Map.empty, [''execute_times'' \<mapsto> [1, 1002 / 1000 :: rat]]]\<rparr>"
  let ?B = "\<lparr>parsed_label = Some (JStr ''5''), parsed_scenario_name = Some ''s'',
              parsed_times = Some [Map.empty, [''execute_times'' \<mapsto> [1, 1004 / 1000 :: rat]]]\<rparr>"
  let ?C = "\<lparr>parsed_label = Some (JStr ''6''), parsed_scenario_name = Some ''s'',
              parsed_times = Some [Map.empty, [''execute_times'' \<mapsto> [2, 2003 / 1000 :: rat]]]\<rparr>"
  let ?load = "\<lambda>n. case map_of [(''a.json'', ?A), (''b.json'', ?B), (''c.json'', ?C)] n of
                 None \<Rightarrow> Inl (OSError n) | Some p \<Rightarrow> Inr p"
  let ?fl = "\<lambda>s. if s = ''5'' then Some (5 :: rat) else if s = ''6'' then Some 6 else None"
  let ?st = "\<lparr>all_scenarios = [(''s'', [(5, [4, 4, 4]), (6, [3, 3, 3])])],
              messages = [''Parsing file 1 / 3: a.json'', ''Parsing file 2 / 3: b.json'',
                          ''Parsing file 3 / 3: c.json'']\<rparr>"
  have run: "show_plots ?load ?fl ([''a.json''] @ [''b.json''] @ [''c.json'']) ''execute_times''
      = Inr ?st"
    by code_simp
  have l: "?load ''b.json'' = Inr ?B" by simp
  have sv: "plugin_summary_values ?B ''execute_times'' = Inr [4, 4, 4]" by code_simp
  have later: "\<forall>m \<in> set [''c.json'']. \<forall>q label ts.
           ?load m = Inr q \<and> parsed_label q = Some label \<and> parsed_times q = Some ts
           \<and> 2 \<le> length ts \<and> convert_to_float ?fl label = Some 5
           \<longrightarrow> parsed_scenario_name q \<noteq> Some ''s''"
    by auto
  have "triplet_at (all_scenarios ?st) ''s'' 5 = Some [4, 4, 4]"
    using C10_last_file_wins [where load = ?load and float_str = ?fl and name = "''b.json''"
        and earlier = "[''a.json'']" and later = "[''c.json'']" and times_key = "''execute_times''"
        and st' = ?st and p = ?B and label = "JStr ''5''" and x = 5 and sv = "[4, 4, 4]"
        and scenario = "''s''"
        and ts = "[Map.empty, [''execute_times'' \<mapsto> [1, 1004 / 1000]]]",
        OF run l _ _ _ _ sv _ later]
    by simp
  moreover have "scenario_to_distribution [(5, [4, 4, 4]), (6, [3, 3, 3])]
       = [[5, 6], [4, 3], [4, 3], [4, 3 :: rat]]"
    by code_simp
  moreover from run have "map_sum id all_scenarios
      (show_plots ?load ?fl [''a.json'', ''b.json'', ''c.json''] ''execute_times'')
      = Inr [(''s'', [(5, [4, 4, 4]), (6, [3, 3, 3])])]"
    by simp
  ultimately show ?thesis by simp
qed

end
